theory Spec2Isabelle
  imports Main "HOL-Library.Sublist"
begin

section \<open>Python strings and values\<close>

text \<open>
  A Python \<open>str\<close> is modelled as a \<open>string\<close> holding its UTF-8 bytes. The glyphs that
  the scripts put in front of their messages are therefore byte sequences, named here.
  The white space \<open>\s\<close> and \<open>lower\<close> are modelled on ASCII: a byte above 127 is
  neither a space nor a letter. \<open>isdigit\<close> and \<open>int\<close> follow the Unicode digits.
\<close>

definition check_mark :: string where
  \<comment> \<open>U+2713\<close>
  "check_mark = [CHR 0xE2, CHR 0x9C, CHR 0x93]"

definition cross_mark :: string where
  \<comment> \<open>U+2717\<close>
  "cross_mark = [CHR 0xE2, CHR 0x9C, CHR 0x97]"

definition warn_mark :: string where
  \<comment> \<open>U+26A0\<close>
  "warn_mark = [CHR 0xE2, CHR 0x9A, CHR 0xA0]"

text \<open>\<open>str(n)\<close> for a non-negative integer.\<close>

definition digit_char :: "nat \<Rightarrow> char" where
  "digit_char d = char_of (48 + d)"

function str_nat :: "nat \<Rightarrow> string" where
  "str_nat n = (if n < 10 then [digit_char n] else str_nat (n div 10) @ [digit_char (n mod 10)])"
  by pat_completeness auto
termination
  by (relation "measure id") auto

declare str_nat.simps [simp del]

text \<open>\<open>sub in s\<close>: the substring test.\<close>

fun py_in :: "string \<Rightarrow> string \<Rightarrow> bool" where
  "py_in sub [] = (sub = [])"
| "py_in sub (c # cs) = (prefix sub (c # cs) \<or> py_in sub cs)"

text \<open>\<open>s.count(sub)\<close>: the number of non-overlapping occurrences, scanning from the left.\<close>

function py_count :: "string \<Rightarrow> string \<Rightarrow> nat" where
  "py_count s sub =
     (if sub = [] then length s + 1
      else if s = [] then 0
      else if prefix sub s then 1 + py_count (drop (length sub) s) sub
      else py_count (tl s) sub)"
  by pat_completeness auto
termination
  by (relation "measure (\<lambda>(s, sub). length s)") auto

declare py_count.simps [simp del]

text \<open>\<open>s.split(sep)\<close> for a separator of one character.\<close>

fun py_split :: "string \<Rightarrow> char \<Rightarrow> string list" where
  "py_split [] sep = [[]]"
| "py_split (c # cs) sep =
     (if c = sep then [] # py_split cs sep
      else (case py_split cs sep of
              [] \<Rightarrow> [[c]]
            | w # ws \<Rightarrow> (c # w) # ws))"

text \<open>The exceptions that the scripts can meet: \<open>ValueError\<close> from \<open>int\<close> and from
  unpacking, \<open>OSError\<close> from opening a directory or a file that may not be opened or
  written, \<open>UnicodeDecodeError\<close> from reading bytes that are not text. A computation
  that may raise returns \<open>Inl\<close> of the exception or \<open>Inr\<close> of its result.\<close>

datatype py_exn = ValueError | OSError | UnicodeDecodeError

definition and_then :: "py_exn + 'a \<Rightarrow> ('a \<Rightarrow> py_exn + 'b) \<Rightarrow> py_exn + 'b" where
  "and_then m f = (case m of Inl e \<Rightarrow> Inl e | Inr x \<Rightarrow> f x)"


text \<open>The class \<open>[0-9]\<close> of the patterns.\<close>

definition is_digit :: "char \<Rightarrow> bool" where
  "is_digit c = (48 \<le> (of_char c :: nat) \<and> (of_char c :: nat) \<le> 57)"

text \<open>
  \<open>s.isdigit()\<close> and \<open>int(s)\<close> read characters, not bytes. \<open>py_chars\<close> cuts a string
  into its characters, each with the length that its first byte announces. The decimal
  digits of Unicode 14.0 (the version of CPython 3.11) come in 66 runs of ten characters
  with the values 0 to 9; all ten of a run have the same bytes but the last, and
  \<open>decimal_runs\<close> holds, for each run, these bytes and the last byte of its zero. The
  first run is \<open>0\<close> to \<open>9\<close>. \<open>other_digits\<close> are the 128 characters for which \<open>isdigit\<close>
  holds although they are no decimal digits, such as the superscript two.
\<close>

definition char_len :: "char \<Rightarrow> nat" where
  "char_len c = (let n = (of_char c :: nat)
                 in if n < 192 then 1 else if n < 224 then 2 else if n < 240 then 3 else 4)"

function py_chars :: "string \<Rightarrow> string list" where
  "py_chars [] = []"
| "py_chars (c # cs) = (c # take (char_len c - 1) cs) # py_chars (drop (char_len c - 1) cs)"
  by pat_completeness auto
termination
  by (relation "measure length") auto

definition decimal_runs :: "(string \<times> nat) list" where
  "decimal_runs =
    [([], 48), ([CHR 0xD9], 160), ([CHR 0xDB], 176), ([CHR 0xDF], 128),
     ([CHR 0xE0, CHR 0xA5], 166), ([CHR 0xE0, CHR 0xA7], 166), ([CHR 0xE0, CHR 0xA9], 166),
     ([CHR 0xE0, CHR 0xAB], 166), ([CHR 0xE0, CHR 0xAD], 166), ([CHR 0xE0, CHR 0xAF], 166),
     ([CHR 0xE0, CHR 0xB1], 166), ([CHR 0xE0, CHR 0xB3], 166), ([CHR 0xE0, CHR 0xB5], 166),
     ([CHR 0xE0, CHR 0xB7], 166), ([CHR 0xE0, CHR 0xB9], 144), ([CHR 0xE0, CHR 0xBB], 144),
     ([CHR 0xE0, CHR 0xBC], 160), ([CHR 0xE1, CHR 0x81], 128), ([CHR 0xE1, CHR 0x82], 144),
     ([CHR 0xE1, CHR 0x9F], 160), ([CHR 0xE1, CHR 0xA0], 144), ([CHR 0xE1, CHR 0xA5], 134),
     ([CHR 0xE1, CHR 0xA7], 144), ([CHR 0xE1, CHR 0xAA], 128), ([CHR 0xE1, CHR 0xAA], 144),
     ([CHR 0xE1, CHR 0xAD], 144), ([CHR 0xE1, CHR 0xAE], 176), ([CHR 0xE1, CHR 0xB1], 128),
     ([CHR 0xE1, CHR 0xB1], 144), ([CHR 0xEA, CHR 0x98], 160), ([CHR 0xEA, CHR 0xA3], 144),
     ([CHR 0xEA, CHR 0xA4], 128), ([CHR 0xEA, CHR 0xA7], 144), ([CHR 0xEA, CHR 0xA7], 176),
     ([CHR 0xEA, CHR 0xA9], 144), ([CHR 0xEA, CHR 0xAF], 176), ([CHR 0xEF, CHR 0xBC], 144),
     ([CHR 0xF0, CHR 0x90, CHR 0x92], 160), ([CHR 0xF0, CHR 0x90, CHR 0xB4], 176),
     ([CHR 0xF0, CHR 0x91, CHR 0x81], 166), ([CHR 0xF0, CHR 0x91, CHR 0x83], 176),
     ([CHR 0xF0, CHR 0x91, CHR 0x84], 182), ([CHR 0xF0, CHR 0x91, CHR 0x87], 144),
     ([CHR 0xF0, CHR 0x91, CHR 0x8B], 176), ([CHR 0xF0, CHR 0x91, CHR 0x91], 144),
     ([CHR 0xF0, CHR 0x91, CHR 0x93], 144), ([CHR 0xF0, CHR 0x91, CHR 0x99], 144),
     ([CHR 0xF0, CHR 0x91, CHR 0x9B], 128), ([CHR 0xF0, CHR 0x91, CHR 0x9C], 176),
     ([CHR 0xF0, CHR 0x91, CHR 0xA3], 160), ([CHR 0xF0, CHR 0x91, CHR 0xA5], 144),
     ([CHR 0xF0, CHR 0x91, CHR 0xB1], 144), ([CHR 0xF0, CHR 0x91, CHR 0xB5], 144),
     ([CHR 0xF0, CHR 0x91, CHR 0xB6], 160), ([CHR 0xF0, CHR 0x96, CHR 0xA9], 160),
     ([CHR 0xF0, CHR 0x96, CHR 0xAB], 128), ([CHR 0xF0, CHR 0x96, CHR 0xAD], 144),
     ([CHR 0xF0, CHR 0x9D, CHR 0x9F], 142), ([CHR 0xF0, CHR 0x9D, CHR 0x9F], 152),
     ([CHR 0xF0, CHR 0x9D, CHR 0x9F], 162), ([CHR 0xF0, CHR 0x9D, CHR 0x9F], 172),
     ([CHR 0xF0, CHR 0x9D, CHR 0x9F], 182), ([CHR 0xF0, CHR 0x9E, CHR 0x85], 128),
     ([CHR 0xF0, CHR 0x9E, CHR 0x8B], 176), ([CHR 0xF0, CHR 0x9E, CHR 0xA5], 144),
     ([CHR 0xF0, CHR 0x9F, CHR 0xAF], 176)]"

definition other_digits :: "string list" where
  "other_digits =
    [[CHR 0xC2, CHR 0xB2], [CHR 0xC2, CHR 0xB3], [CHR 0xC2, CHR 0xB9],
     [CHR 0xE1, CHR 0x8D, CHR 0xA9], [CHR 0xE1, CHR 0x8D, CHR 0xAA],
     [CHR 0xE1, CHR 0x8D, CHR 0xAB], [CHR 0xE1, CHR 0x8D, CHR 0xAC],
     [CHR 0xE1, CHR 0x8D, CHR 0xAD], [CHR 0xE1, CHR 0x8D, CHR 0xAE],
     [CHR 0xE1, CHR 0x8D, CHR 0xAF], [CHR 0xE1, CHR 0x8D, CHR 0xB0],
     [CHR 0xE1, CHR 0x8D, CHR 0xB1], [CHR 0xE1, CHR 0xA7, CHR 0x9A],
     [CHR 0xE2, CHR 0x81, CHR 0xB0], [CHR 0xE2, CHR 0x81, CHR 0xB4],
     [CHR 0xE2, CHR 0x81, CHR 0xB5], [CHR 0xE2, CHR 0x81, CHR 0xB6],
     [CHR 0xE2, CHR 0x81, CHR 0xB7], [CHR 0xE2, CHR 0x81, CHR 0xB8],
     [CHR 0xE2, CHR 0x81, CHR 0xB9], [CHR 0xE2, CHR 0x82, CHR 0x80],
     [CHR 0xE2, CHR 0x82, CHR 0x81], [CHR 0xE2, CHR 0x82, CHR 0x82],
     [CHR 0xE2, CHR 0x82, CHR 0x83], [CHR 0xE2, CHR 0x82, CHR 0x84],
     [CHR 0xE2, CHR 0x82, CHR 0x85], [CHR 0xE2, CHR 0x82, CHR 0x86],
     [CHR 0xE2, CHR 0x82, CHR 0x87], [CHR 0xE2, CHR 0x82, CHR 0x88],
     [CHR 0xE2, CHR 0x82, CHR 0x89], [CHR 0xE2, CHR 0x91, CHR 0xA0],
     [CHR 0xE2, CHR 0x91, CHR 0xA1], [CHR 0xE2, CHR 0x91, CHR 0xA2],
     [CHR 0xE2, CHR 0x91, CHR 0xA3], [CHR 0xE2, CHR 0x91, CHR 0xA4],
     [CHR 0xE2, CHR 0x91, CHR 0xA5], [CHR 0xE2, CHR 0x91, CHR 0xA6],
     [CHR 0xE2, CHR 0x91, CHR 0xA7], [CHR 0xE2, CHR 0x91, CHR 0xA8],
     [CHR 0xE2, CHR 0x91, CHR 0xB4], [CHR 0xE2, CHR 0x91, CHR 0xB5],
     [CHR 0xE2, CHR 0x91, CHR 0xB6], [CHR 0xE2, CHR 0x91, CHR 0xB7],
     [CHR 0xE2, CHR 0x91, CHR 0xB8], [CHR 0xE2, CHR 0x91, CHR 0xB9],
     [CHR 0xE2, CHR 0x91, CHR 0xBA], [CHR 0xE2, CHR 0x91, CHR 0xBB],
     [CHR 0xE2, CHR 0x91, CHR 0xBC], [CHR 0xE2, CHR 0x92, CHR 0x88],
     [CHR 0xE2, CHR 0x92, CHR 0x89], [CHR 0xE2, CHR 0x92, CHR 0x8A],
     [CHR 0xE2, CHR 0x92, CHR 0x8B], [CHR 0xE2, CHR 0x92, CHR 0x8C],
     [CHR 0xE2, CHR 0x92, CHR 0x8D], [CHR 0xE2, CHR 0x92, CHR 0x8E],
     [CHR 0xE2, CHR 0x92, CHR 0x8F], [CHR 0xE2, CHR 0x92, CHR 0x90],
     [CHR 0xE2, CHR 0x93, CHR 0xAA], [CHR 0xE2, CHR 0x93, CHR 0xB5],
     [CHR 0xE2, CHR 0x93, CHR 0xB6], [CHR 0xE2, CHR 0x93, CHR 0xB7],
     [CHR 0xE2, CHR 0x93, CHR 0xB8], [CHR 0xE2, CHR 0x93, CHR 0xB9],
     [CHR 0xE2, CHR 0x93, CHR 0xBA], [CHR 0xE2, CHR 0x93, CHR 0xBB],
     [CHR 0xE2, CHR 0x93, CHR 0xBC], [CHR 0xE2, CHR 0x93, CHR 0xBD],
     [CHR 0xE2, CHR 0x93, CHR 0xBF], [CHR 0xE2, CHR 0x9D, CHR 0xB6],
     [CHR 0xE2, CHR 0x9D, CHR 0xB7], [CHR 0xE2, CHR 0x9D, CHR 0xB8],
     [CHR 0xE2, CHR 0x9D, CHR 0xB9], [CHR 0xE2, CHR 0x9D, CHR 0xBA],
     [CHR 0xE2, CHR 0x9D, CHR 0xBB], [CHR 0xE2, CHR 0x9D, CHR 0xBC],
     [CHR 0xE2, CHR 0x9D, CHR 0xBD], [CHR 0xE2, CHR 0x9D, CHR 0xBE],
     [CHR 0xE2, CHR 0x9E, CHR 0x80], [CHR 0xE2, CHR 0x9E, CHR 0x81],
     [CHR 0xE2, CHR 0x9E, CHR 0x82], [CHR 0xE2, CHR 0x9E, CHR 0x83],
     [CHR 0xE2, CHR 0x9E, CHR 0x84], [CHR 0xE2, CHR 0x9E, CHR 0x85],
     [CHR 0xE2, CHR 0x9E, CHR 0x86], [CHR 0xE2, CHR 0x9E, CHR 0x87],
     [CHR 0xE2, CHR 0x9E, CHR 0x88], [CHR 0xE2, CHR 0x9E, CHR 0x8A],
     [CHR 0xE2, CHR 0x9E, CHR 0x8B], [CHR 0xE2, CHR 0x9E, CHR 0x8C],
     [CHR 0xE2, CHR 0x9E, CHR 0x8D], [CHR 0xE2, CHR 0x9E, CHR 0x8E],
     [CHR 0xE2, CHR 0x9E, CHR 0x8F], [CHR 0xE2, CHR 0x9E, CHR 0x90],
     [CHR 0xE2, CHR 0x9E, CHR 0x91], [CHR 0xE2, CHR 0x9E, CHR 0x92],
     [CHR 0xF0, CHR 0x90, CHR 0xA9, CHR 0x80], [CHR 0xF0, CHR 0x90, CHR 0xA9, CHR 0x81],
     [CHR 0xF0, CHR 0x90, CHR 0xA9, CHR 0x82], [CHR 0xF0, CHR 0x90, CHR 0xA9, CHR 0x83],
     [CHR 0xF0, CHR 0x90, CHR 0xB9, CHR 0xA0], [CHR 0xF0, CHR 0x90, CHR 0xB9, CHR 0xA1],
     [CHR 0xF0, CHR 0x90, CHR 0xB9, CHR 0xA2], [CHR 0xF0, CHR 0x90, CHR 0xB9, CHR 0xA3],
     [CHR 0xF0, CHR 0x90, CHR 0xB9, CHR 0xA4], [CHR 0xF0, CHR 0x90, CHR 0xB9, CHR 0xA5],
     [CHR 0xF0, CHR 0x90, CHR 0xB9, CHR 0xA6], [CHR 0xF0, CHR 0x90, CHR 0xB9, CHR 0xA7],
     [CHR 0xF0, CHR 0x90, CHR 0xB9, CHR 0xA8], [CHR 0xF0, CHR 0x91, CHR 0x81, CHR 0x92],
     [CHR 0xF0, CHR 0x91, CHR 0x81, CHR 0x93], [CHR 0xF0, CHR 0x91, CHR 0x81, CHR 0x94],
     [CHR 0xF0, CHR 0x91, CHR 0x81, CHR 0x95], [CHR 0xF0, CHR 0x91, CHR 0x81, CHR 0x96],
     [CHR 0xF0, CHR 0x91, CHR 0x81, CHR 0x97], [CHR 0xF0, CHR 0x91, CHR 0x81, CHR 0x98],
     [CHR 0xF0, CHR 0x91, CHR 0x81, CHR 0x99], [CHR 0xF0, CHR 0x91, CHR 0x81, CHR 0x9A],
     [CHR 0xF0, CHR 0x9F, CHR 0x84, CHR 0x80], [CHR 0xF0, CHR 0x9F, CHR 0x84, CHR 0x81],
     [CHR 0xF0, CHR 0x9F, CHR 0x84, CHR 0x82], [CHR 0xF0, CHR 0x9F, CHR 0x84, CHR 0x83],
     [CHR 0xF0, CHR 0x9F, CHR 0x84, CHR 0x84], [CHR 0xF0, CHR 0x9F, CHR 0x84, CHR 0x85],
     [CHR 0xF0, CHR 0x9F, CHR 0x84, CHR 0x86], [CHR 0xF0, CHR 0x9F, CHR 0x84, CHR 0x87],
     [CHR 0xF0, CHR 0x9F, CHR 0x84, CHR 0x88], [CHR 0xF0, CHR 0x9F, CHR 0x84, CHR 0x89],
     [CHR 0xF0, CHR 0x9F, CHR 0x84, CHR 0x8A]]"

definition digit_value :: "string \<Rightarrow> nat option" where
  "digit_value c =
     (if c = [] then None
      else (case find (\<lambda>(p, zero). p = butlast c \<and> zero \<le> of_char (last c)
                                     \<and> of_char (last c) < zero + 10) decimal_runs of
              None \<Rightarrow> None
            | Some (p, zero) \<Rightarrow> Some (of_char (last c) - zero)))"

definition is_decimal :: "string \<Rightarrow> bool" where
  \<comment> \<open>every character is a decimal digit\<close>
  "is_decimal s = list_all (\<lambda>c. digit_value c \<noteq> None) (py_chars s)"

definition py_isdigit :: "string \<Rightarrow> bool" where
  "py_isdigit s =
     (s \<noteq> [] \<and> list_all (\<lambda>c. digit_value c \<noteq> None \<or> c \<in> set other_digits) (py_chars s))"

text \<open>
  \<open>int(s)\<close>, for a string on which \<open>isdigit\<close> holds, which is how the scripts call it.
  It raises \<open>ValueError\<close> when a character is no decimal digit, and also when the string
  has more digits than \<open>sys.int_max_str_digits\<close>, 4300 unless the user changes it.
\<close>

definition int_max_str_digits :: nat where
  "int_max_str_digits = 4300"

definition decimal_value :: "string \<Rightarrow> int" where
  "decimal_value s = foldl (\<lambda>a c. 10 * a + int (the (digit_value c))) 0 (py_chars s)"

definition py_int :: "string \<Rightarrow> py_exn + int" where
  "py_int s =
     (if s = [] \<or> \<not> is_decimal s then Inl ValueError
      else if int_max_str_digits < length (py_chars s) then Inl ValueError
      else Inr (decimal_value s))"

text \<open>\<open>s.strip()\<close>, \<open>s.lower()\<close> and \<open>s.startswith(p)\<close>. The white space of Python
  below 128 is 9 to 13, 28 to 31 and 32.\<close>

definition is_space :: "char \<Rightarrow> bool" where
  "is_space c = (let n = (of_char c :: nat) in (9 \<le> n \<and> n \<le> 13) \<or> (28 \<le> n \<and> n \<le> 32))"

definition py_strip :: "string \<Rightarrow> string" where
  "py_strip s = rev (dropWhile is_space (rev (dropWhile is_space s)))"

definition lower_char :: "char \<Rightarrow> char" where
  "lower_char c = (let n = (of_char c :: nat) in if 65 \<le> n \<and> n \<le> 90 then char_of (n + 32) else c)"

definition py_lower :: "string \<Rightarrow> string" where
  "py_lower s = map lower_char s"

definition startswith :: "string \<Rightarrow> string \<Rightarrow> bool" where
  "startswith s p = prefix p s"

text \<open>The truth value of an optional string: \<open>None\<close> and \<open>''\<close> are false.\<close>

fun truthy :: "string option \<Rightarrow> bool" where
  "truthy None = False"
| "truthy (Some s) = (s \<noteq> [])"

text \<open>\<open>d[k] = v\<close> on a dictionary kept as the list of its items in insertion order: a key
  that is present keeps its place and takes the new value.\<close>

fun dict_set :: "'k \<Rightarrow> 'v \<Rightarrow> ('k \<times> 'v) list \<Rightarrow> ('k \<times> 'v) list" where
  "dict_set k v [] = [(k, v)]"
| "dict_set k v ((k', v') # kvs) =
     (if k' = k then (k, v) # kvs else (k', v') # dict_set k v kvs)"

section \<open>Regular expressions as the module \<open>re\<close> matches them\<close>

text \<open>
  The scripts find everything with regular expressions over raw text. A pattern is a
  value of \<open>rx\<close>; \<open>run\<close> is the backtracking matcher: it returns every way the pattern
  matches at the current position, in the order in which \<open>re\<close> tries them (a greedy
  repetition tries the longest first, an alternative the left branch first), so that the
  head of the list is the match that \<open>re\<close> reports. A matcher state is the current
  position, the text from there on, and the groups captured so far.
\<close>

datatype rx =
    Lit char
  | Cls "char \<Rightarrow> bool"
  | Seq rx rx
  | Alt rx rx
  | Star rx
  | Grp nat rx
  | Bol
  | Eol
  | Eps

type_synonym mstate = "nat \<times> string \<times> (nat \<rightharpoonup> string)"

fun step :: "(char \<Rightarrow> bool) \<Rightarrow> mstate \<Rightarrow> mstate list" where
  "step P (p, [], g) = []"
| "step P (p, x # xs, g) = (if P x then [(Suc p, xs, g)] else [])"

fun set_group :: "nat \<Rightarrow> mstate \<Rightarrow> mstate \<Rightarrow> mstate" where
  "set_group i (p, s, g) (p', s', g') = (p', s', g'(i \<mapsto> take (p' - p) s))"

fun remaining :: "mstate \<Rightarrow> nat" where
  "remaining (p, s, g) = length s"

text \<open>A greedy repetition: one more round of the body where it consumes something, then
  the rounds after it; stopping here comes last. The number of rounds is bounded by the
  length of the remaining text.\<close>

primrec starn :: "nat \<Rightarrow> (mstate \<Rightarrow> mstate list) \<Rightarrow> mstate \<Rightarrow> mstate list" where
  "starn 0 f st = [st]"
| "starn (Suc n) f st =
     concat (map (starn n f) (filter (\<lambda>st'. remaining st' < remaining st) (f st))) @ [st]"

fun at_start :: "mstate \<Rightarrow> bool" where
  "at_start (p, s, g) = (p = 0)"

fun at_end :: "mstate \<Rightarrow> bool" where
  \<comment> \<open>\<open>$\<close> without MULTILINE: at the end, or just before a newline that ends the text\<close>
  "at_end (p, s, g) = (s = [] \<or> s = [CHR 0x0A])"

primrec run :: "rx \<Rightarrow> mstate \<Rightarrow> mstate list" where
  "run (Lit c) st = step (\<lambda>x. x = c) st"
| "run (Cls P) st = step P st"
| "run (Seq a b) st = concat (map (run b) (run a st))"
| "run (Alt a b) st = run a st @ run b st"
| "run (Star r) st = starn (remaining st) (run r) st"
| "run (Grp i r) st = map (set_group i st) (run r st)"
| "run Bol st = (if at_start st then [st] else [])"
| "run Eol st = (if at_end st then [st] else [])"
| "run Eps st = [st]"

text \<open>Pattern syntax: a literal word, \<open>r+\<close>, \<open>r{n}\<close>, \<open>r{0,n}\<close>, a sequence.\<close>

primrec Str :: "string \<Rightarrow> rx" where
  "Str [] = Eps"
| "Str (c # cs) = Seq (Lit c) (Str cs)"

definition Plus :: "rx \<Rightarrow> rx" where
  "Plus r = Seq r (Star r)"

primrec Times :: "nat \<Rightarrow> rx \<Rightarrow> rx" where
  "Times 0 r = Eps"
| "Times (Suc n) r = Seq r (Times n r)"

primrec Upto :: "nat \<Rightarrow> rx \<Rightarrow> rx" where
  "Upto 0 r = Eps"
| "Upto (Suc n) r = Alt (Seq r (Upto n r)) Eps"

primrec Seqs :: "rx list \<Rightarrow> rx" where
  "Seqs [] = Eps"
| "Seqs (r # rs) = Seq r (Seqs rs)"

text \<open>A match: the matched text, the groups, and the text after the match.\<close>

type_synonym py_match = "string \<times> (nat \<rightharpoonup> string) \<times> string"

fun match_here :: "rx \<Rightarrow> nat \<Rightarrow> string \<Rightarrow> py_match option" where
  "match_here r p s =
     (case run r (p, s, Map.empty) of
        [] \<Rightarrow> None
      | (p', s', g) # _ \<Rightarrow> Some (take (p' - p) s, g, s'))"

text \<open>\<open>re.match(r, s)\<close> matches at the start only.\<close>

definition re_match :: "rx \<Rightarrow> string \<Rightarrow> py_match option" where
  "re_match r s = match_here r 0 s"

text \<open>\<open>re.search(r, s)\<close>: the first position, from the left, where the pattern matches.\<close>

fun search_from :: "rx \<Rightarrow> nat \<Rightarrow> string \<Rightarrow> py_match option" where
  "search_from r p [] = match_here r p []"
| "search_from r p (c # cs) =
     (case match_here r p (c # cs) of
        Some m \<Rightarrow> Some m
      | None \<Rightarrow> search_from r (Suc p) cs)"

definition re_search :: "rx \<Rightarrow> string \<Rightarrow> py_match option" where
  "re_search r s = search_from r 0 s"

text \<open>\<open>re.findall(r, s)\<close>: the matches from left to right, none overlapping another.
  \<open>skip\<close> counts the characters still covered by the last match. No pattern of the
  scripts matches the empty text; the model records such a match and moves on.\<close>

fun findall_from :: "rx \<Rightarrow> nat \<Rightarrow> nat \<Rightarrow> string \<Rightarrow> py_match list" where
  "findall_from r skip p [] =
     (case match_here r p [] of None \<Rightarrow> [] | Some m \<Rightarrow> [m])"
| "findall_from r skip p (c # cs) =
     (if 0 < skip then findall_from r (skip - 1) (Suc p) cs
      else (case match_here r p (c # cs) of
              None \<Rightarrow> findall_from r 0 (Suc p) cs
            | Some (t, g, s') \<Rightarrow> (t, g, s') # findall_from r (length t - 1) (Suc p) cs))"

definition re_findall :: "rx \<Rightarrow> string \<Rightarrow> py_match list" where
  "re_findall r s = findall_from r 0 0 s"

text \<open>\<open>m.group(0)\<close> and \<open>m.group(i)\<close>; in the tuples of \<open>findall\<close> a group that took no
  part is the empty string.\<close>

fun whole :: "py_match \<Rightarrow> string" where
  "whole (t, g, s') = t"

fun grp :: "nat \<Rightarrow> py_match \<Rightarrow> string" where
  "grp i (t, g, s') = (case g i of None \<Rightarrow> [] | Some x \<Rightarrow> x)"

text \<open>The character classes of the patterns.\<close>

definition ws :: rx where
  \<comment> \<open>\<open>\s\<close>\<close>
  "ws = Cls is_space"

definition quote :: char where
  "quote = CHR 0x22"

definition newline :: char where
  "newline = CHR 0x0A"

definition not_quote :: rx where
  \<comment> \<open>\<open>[^"]\<close>\<close>
  "not_quote = Cls (\<lambda>c. c \<noteq> quote)"

definition not_close :: rx where
  \<comment> \<open>\<open>[^}]\<close>\<close>
  "not_close = Cls (\<lambda>c. c \<noteq> CHR ''}'')"

definition not_newline :: rx where
  \<comment> \<open>\<open>[^\n]\<close>\<close>
  "not_newline = Cls (\<lambda>c. c \<noteq> newline)"

definition is_lower :: "char \<Rightarrow> bool" where
  "is_lower c = (97 \<le> (of_char c :: nat) \<and> (of_char c :: nat) \<le> 122)"

definition lower_us :: rx where
  \<comment> \<open>\<open>[a-z_]\<close>\<close>
  "lower_us = Cls (\<lambda>c. is_lower c \<or> c = CHR ''_'')"

section \<open>The findings of a checker\<close>

text \<open>
  \<open>TerraformModuleValidator\<close> and \<open>OutputVerifier\<close> both keep three lists of messages,
  \<open>self.errors\<close>, \<open>self.warnings\<close> and \<open>self.info\<close>, all empty at construction.
\<close>

record findings =
  errors :: "string list"
  warnings :: "string list"
  info :: "string list"

definition init_findings :: findings where
  "init_findings = \<lparr>errors = [], warnings = [], info = []\<rparr>"

section \<open>The module directory\<close>

text \<open>
  Every script reads the directory named on its command line. The directory is modelled
  by its entries, as (name, entry) pairs in listing order. An entry is a text file with
  the content that \<open>read\<close> returns, or a file whose bytes do not decode as text, or a
  subdirectory. \<open>writable\<close> says whether a file of the directory can be created or
  overwritten; it is false for a directory that does not exist, which has no entries
  either. A directory that exists is one that can be listed and searched, so that
  \<open>exists\<close> and \<open>glob\<close> return.
\<close>

datatype entry = Text string | Unreadable | Dir

record module_dir =
  entries :: "(string \<times> entry) list"
  writable :: bool

text \<open>\<open>(module_path / name).exists()\<close>; a path ignores a slash at the end of the name.\<close>

definition path_name :: "string \<Rightarrow> string" where
  "path_name name = rev (dropWhile (\<lambda>c. c = CHR ''/'') (rev name))"

definition path_exists :: "module_dir \<Rightarrow> string \<Rightarrow> bool" where
  "path_exists d name = (path_name name \<in> fst ` set (entries d))"

text \<open>\<open>open(path, 'r')\<close> and \<open>read()\<close> on an entry: only a text file gives its content.\<close>

fun read_entry :: "entry option \<Rightarrow> py_exn + string" where
  "read_entry (Some (Text content)) = Inr content"
| "read_entry (Some Unreadable) = Inl UnicodeDecodeError"
| "read_entry (Some Dir) = Inl OSError"
| "read_entry None = Inl OSError"

definition read_text :: "module_dir \<Rightarrow> string \<Rightarrow> py_exn + string" where
  "read_text d name = read_entry (map_of (entries d) name)"

text \<open>The content of a text file of the directory, if the name is one.\<close>

definition file_text :: "module_dir \<Rightarrow> string \<Rightarrow> string option" where
  "file_text d name = (case map_of (entries d) name of Some (Text content) \<Rightarrow> Some content | _ \<Rightarrow> None)"

text \<open>\<open>open(path, 'w')\<close>: it raises when the path is a directory or may not be written.\<close>

definition can_write :: "module_dir \<Rightarrow> string \<Rightarrow> bool" where
  "can_write d name = (writable d \<and> map_of (entries d) name \<noteq> Some Dir)"


text \<open>A script that ends by an exception that nothing catches exits with status 1;
  otherwise each script ends with \<open>exit(0 if success else 1)\<close>.\<close>

definition exit_status :: "bool \<Rightarrow> int" where
  "exit_status success = (if success then 0 else 1)"

definition script_exit :: "py_exn + bool \<Rightarrow> int" where
  "script_exit r = (case r of Inl e \<Rightarrow> 1 | Inr success \<Rightarrow> exit_status success)"

section \<open>output_verifier.py\<close>

text \<open>The declared resources and data sources: \<open>load_resources\<close>.\<close>

definition resource_pattern :: rx where
  \<comment> \<open>\<open>resource\s+"([^"]+)"\s+"([^"]+)"\s*{\<close>\<close>
  "resource_pattern = Seqs [Str ''resource'', Plus ws, Lit quote, Grp 1 (Plus not_quote), Lit quote,
     Plus ws, Lit quote, Grp 2 (Plus not_quote), Lit quote, Star ws, Lit (CHR ''{'')]"

definition data_pattern :: rx where
  \<comment> \<open>\<open>data\s+"([^"]+)"\s+"([^"]+)"\s*{\<close>\<close>
  "data_pattern = Seqs [Str ''data'', Plus ws, Lit quote, Grp 1 (Plus not_quote), Lit quote,
     Plus ws, Lit quote, Grp 2 (Plus not_quote), Lit quote, Star ws, Lit (CHR ''{'')]"

definition pairs_of :: "py_match list \<Rightarrow> (string \<times> string) list" where
  "pairs_of ms = map (\<lambda>m. (grp 1 m, grp 2 m)) ms"

definition load_resources ::
  "module_dir \<Rightarrow> py_exn + ((string \<times> string) list \<times> (string \<times> string) list)" where
  "load_resources d =
     (if \<not> path_exists d ''main.tf'' then Inr ([], [])
      else and_then (read_text d ''main.tf'') (\<lambda>content.
             Inr (pairs_of (re_findall resource_pattern content),
                  pairs_of (re_findall data_pattern content))))"

text \<open>The declared outputs: \<open>load_outputs\<close> and the three \<open>_extract\<close> helpers.\<close>

record output_info =
  out_description :: "string option"
  out_value :: "string option"
  out_sensitive :: bool

definition output_pattern :: rx where
  \<comment> \<open>\<open>output\s+"([^"]+)"\s*{([^}]+(?:{[^}]*}[^}]*)*)}\<close>\<close>
  "output_pattern = Seqs [Str ''output'', Plus ws, Lit quote, Grp 1 (Plus not_quote), Lit quote,
     Star ws, Lit (CHR ''{''),
     Grp 2 (Seq (Plus not_close)
              (Star (Seqs [Lit (CHR ''{''), Star not_close, Lit (CHR ''}''), Star not_close]))),
     Lit (CHR ''}'')]"

definition description_pattern :: rx where
  \<comment> \<open>\<open>description\s*=\s*"([^"]+)"\<close>\<close>
  "description_pattern = Seqs [Str ''description'', Star ws, Lit (CHR ''=''), Star ws,
     Lit quote, Grp 1 (Plus not_quote), Lit quote]"

definition value_pattern :: rx where
  \<comment> \<open>\<open>value\s*=\s*([^\n]+)\<close>\<close>
  "value_pattern = Seqs [Str ''value'', Star ws, Lit (CHR ''=''), Star ws, Grp 1 (Plus not_newline)]"

definition sensitive_pattern :: rx where
  \<comment> \<open>\<open>sensitive\s*=\s*(true|false)\<close>\<close>
  "sensitive_pattern = Seqs [Str ''sensitive'', Star ws, Lit (CHR ''=''), Star ws,
     Grp 1 (Alt (Str ''true'') (Str ''false''))]"

definition extract_description :: "string \<Rightarrow> string option" where
  "extract_description content =
     (case re_search description_pattern content of
        Some desc_match \<Rightarrow> Some (grp 1 desc_match)
      | None \<Rightarrow> None)"

definition extract_value :: "string \<Rightarrow> string option" where
  "extract_value content =
     (case re_search value_pattern content of
        Some value_match \<Rightarrow> Some (py_strip (grp 1 value_match))
      | None \<Rightarrow> None)"

definition extract_sensitive :: "string \<Rightarrow> bool" where
  "extract_sensitive content =
     (case re_search sensitive_pattern content of
        Some sensitive_match \<Rightarrow> grp 1 sensitive_match = ''true''
      | None \<Rightarrow> False)"

definition output_entry :: "string \<Rightarrow> output_info" where
  "output_entry output_content =
     \<lparr>out_description = extract_description output_content,
      out_value = extract_value output_content,
      out_sensitive = extract_sensitive output_content\<rparr>"

definition load_outputs :: "module_dir \<Rightarrow> py_exn + (string \<times> output_info) list" where
  "load_outputs d =
     (if \<not> path_exists d ''outputs.tf'' then Inr []
      else and_then (read_text d ''outputs.tf'') (\<lambda>content.
             Inr (foldl (\<lambda>output_details (output_name, output_content).
                           dict_set output_name (output_entry output_content) output_details)
                    [] (pairs_of (re_findall output_pattern content)))))"

text \<open>
  The state of an \<open>OutputVerifier\<close>: the three lists, and the lines that
  \<open>_verify_value_references\<close> prints about each reference. The other \<open>print\<close> calls
  of the script repeat what the lists hold and are left out.
\<close>

record verifier = findings +
  printed :: "string list"

definition init_verifier :: verifier where
  "init_verifier = \<lparr>errors = [], warnings = [], info = [], printed = []\<rparr>"

text \<open>\<open>_verify_value_references(output_name, value, available_refs)\<close>\<close>

definition ref_patterns :: "rx list" where
  \<comment> \<open>\<open>aws_[a-z_]+\.[a-z_]+\<close>, the same for \<open>azurerm_\<close> and \<open>google_\<close>,
      \<open>data\.[a-z_]+\.[a-z_]+\<close>, \<open>local\.[a-z_]+\<close>, \<open>var\.[a-z_]+\<close>\<close>
  "ref_patterns =
     [Seqs [Str ''aws_'', Plus lower_us, Lit (CHR ''.''), Plus lower_us],
      Seqs [Str ''azurerm_'', Plus lower_us, Lit (CHR ''.''), Plus lower_us],
      Seqs [Str ''google_'', Plus lower_us, Lit (CHR ''.''), Plus lower_us],
      Seqs [Str ''data.'', Plus lower_us, Lit (CHR ''.''), Plus lower_us],
      Seqs [Str ''local.'', Plus lower_us],
      Seqs [Str ''var.'', Plus lower_us]]"

definition found_refs :: "string \<Rightarrow> string list" where
  \<comment> \<open>every match of every pattern; the script collects them in a set\<close>
  "found_refs v = concat (map (\<lambda>pattern. map whole (re_findall pattern v)) ref_patterns)"

definition info_glyph :: string where
  \<comment> \<open>U+2139 U+FE0F\<close>
  "info_glyph = [CHR 0xE2, CHR 0x84, CHR 0xB9, CHR 0xEF, CHR 0xB8, CHR 0x8F]"

definition ok_glyph :: string where
  \<comment> \<open>U+2705\<close>
  "ok_glyph = [CHR 0xE2, CHR 0x9C, CHR 0x85]"

definition no_glyph :: string where
  \<comment> \<open>U+274C\<close>
  "no_glyph = [CHR 0xE2, CHR 0x9D, CHR 0x8C]"

definition named :: "string \<Rightarrow> string" where
  \<comment> \<open>\<open>Output '{output_name}'\<close>\<close>
  "named output_name = '' Output '' @ [CHR 0x27] @ output_name @ [CHR 0x27]"

definition var_local_line :: "string \<Rightarrow> string" where
  "var_local_line ref = ''    '' @ info_glyph @ ''  Reference: '' @ ref @ '' (variable/local)''"

definition valid_ref_msg :: "string \<Rightarrow> string \<Rightarrow> string" where
  "valid_ref_msg output_name ref =
     check_mark @ named output_name @ '' references valid resource: '' @ ref"

definition invalid_ref_msg :: "string \<Rightarrow> string \<Rightarrow> string" where
  "invalid_ref_msg output_name ref =
     cross_mark @ named output_name @ '' references invalid resource: '' @ ref"

definition is_var_local :: "string \<Rightarrow> bool" where
  \<comment> \<open>\<open>ref.startswith(('var.', 'local.'))\<close>\<close>
  "is_var_local ref = (startswith ref ''var.'' \<or> startswith ref ''local.'')"

definition check_ref :: "string \<Rightarrow> string set \<Rightarrow> string \<Rightarrow> verifier \<Rightarrow> verifier" where
  \<comment> \<open>the body of the loop over \<open>found_refs\<close>\<close>
  "check_ref output_name available_refs ref st =
     (if is_var_local ref
      then st\<lparr>printed := printed st @ [var_local_line ref]\<rparr>
      else if ref \<in> available_refs
      then st\<lparr>info := info st @ [valid_ref_msg output_name ref],
              printed := printed st @ [''    '' @ ok_glyph @ '' Valid reference: '' @ ref]\<rparr>
      else st\<lparr>errors := errors st @ [invalid_ref_msg output_name ref],
              printed := printed st @ [''    '' @ no_glyph @ '' Invalid reference: '' @ ref]\<rparr>)"

text \<open>
  \<open>found_refs\<close> is a Python set, and the loop visits it in the order of the set, which
  the language leaves open. The order is the parameter \<open>it\<close>: it turns the matches into
  the sequence in which the loop sees them, each once.
\<close>

definition set_order :: "(string list \<Rightarrow> string list) \<Rightarrow> bool" where
  "set_order it = (\<forall>xs. distinct (it xs) \<and> set (it xs) = set xs)"

definition verify_value_references ::
  "(string list \<Rightarrow> string list) \<Rightarrow> string \<Rightarrow> string \<Rightarrow> string set \<Rightarrow> verifier \<Rightarrow> verifier" where
  "verify_value_references it output_name v available_refs st =
     foldl (\<lambda>st ref. check_ref output_name available_refs ref st) st (it (found_refs v))"

text \<open>\<open>verify_output_references()\<close>: the set of available references, then one round of
  the loop for each output.\<close>

definition available_refs :: "(string \<times> string) list \<Rightarrow> (string \<times> string) list \<Rightarrow> string set" where
  "available_refs resources data_sources =
     set (map (\<lambda>(resource_type, resource_name). resource_type @ ''.'' @ resource_name) resources)
     \<union> set (map (\<lambda>(data_type, data_name). ''data.'' @ data_type @ ''.'' @ data_name) data_sources)"

definition missing_value_msg :: "string \<Rightarrow> string" where
  "missing_value_msg output_name = cross_mark @ named output_name @ '' missing value''"

definition has_value_msg :: "string \<Rightarrow> string" where
  "has_value_msg output_name = check_mark @ named output_name @ '' has value''"

definition check_description :: "string \<Rightarrow> output_info \<Rightarrow> verifier \<Rightarrow> verifier" where
  "check_description output_name output_info st =
     (if truthy (out_description output_info)
      then st\<lparr>info := info st @ [check_mark @ named output_name @ '' has description'']\<rparr>
      else st\<lparr>warnings := warnings st @ [warn_mark @ named output_name @ '' missing description'']\<rparr>)"

definition verify_output ::
  "(string list \<Rightarrow> string list) \<Rightarrow> string set \<Rightarrow> string \<times> output_info \<Rightarrow> verifier \<Rightarrow> verifier" where
  \<comment> \<open>the body of the loop over \<open>outputs.items()\<close>\<close>
  "verify_output it refs item st =
     (let output_name = fst item; output_info = snd item;
          st1 = check_description output_name output_info st
      in if truthy (out_value output_info)
         then verify_value_references it output_name (the (out_value output_info)) refs
                (st1\<lparr>info := info st1 @ [has_value_msg output_name]\<rparr>)
         else st1\<lparr>errors := errors st1 @ [missing_value_msg output_name]\<rparr>)"

definition verify_output_references ::
  "(string list \<Rightarrow> string list) \<Rightarrow> module_dir \<Rightarrow> verifier \<Rightarrow> py_exn + verifier" where
  "verify_output_references it d st =
     and_then (load_resources d) (\<lambda>(resources, data_sources).
     and_then (load_outputs d) (\<lambda>outputs.
       if outputs = [] then Inr st
       else Inr (foldl (\<lambda>st item. verify_output it (available_refs resources data_sources) item st)
                   st outputs)))"


section \<open>terraform_module_validator.py\<close>

text \<open>\<open>_check_brackets(content, filename)\<close>\<close>

definition unbalanced_msg :: "string \<Rightarrow> nat \<Rightarrow> nat \<Rightarrow> string" where
  "unbalanced_msg filename open_braces close_braces =
     cross_mark @ '' '' @ filename @ '': Unbalanced braces - '' @ str_nat open_braces
       @ '' open, '' @ str_nat close_braces @ '' close''"

definition check_brackets :: "string \<Rightarrow> string \<Rightarrow> findings \<Rightarrow> findings" where
  "check_brackets content filename st =
     (let open_braces = py_count content ''{'';
          close_braces = py_count content ''}''
      in if open_braces \<noteq> close_braces
         then st\<lparr>errors := errors st @ [unbalanced_msg filename open_braces close_braces]\<rparr>
         else st\<lparr>info := info st @ [check_mark @ '' '' @ filename @ '': Brackets are balanced'']\<rparr>)"








definition sq :: "string \<Rightarrow> string" where
  \<comment> \<open>a text between single quotes\<close>
  "sq s = [CHR 0x27] @ s @ [CHR 0x27]"

















definition snake_case_pattern :: rx where
  \<comment> \<open>\<open>^[a-z][a-z0-9_]*$\<close>\<close>
  "snake_case_pattern = Seqs [Bol, Cls is_lower,
     Star (Cls (\<lambda>c. is_lower c \<or> is_digit c \<or> c = CHR ''_'')), Eol]"






section \<open>variable_validation_tester.py\<close>

text \<open>The declared variables: \<open>load_variable_validations\<close> and its \<open>_extract\<close> helpers.\<close>

record var_info =
  var_type :: "string option"
  var_default :: "string option"
  validation_rules :: "(string \<times> string) list"

definition variable_block_pattern :: rx where
  \<comment> \<open>\<open>variable\s+"([^"]+)"\s*{([^}]+(?:{[^}]*}[^}]*)*)}\<close>\<close>
  "variable_block_pattern = Seqs [Str ''variable'', Plus ws, Lit quote, Grp 1 (Plus not_quote),
     Lit quote, Star ws, Lit (CHR ''{''),
     Grp 2 (Seq (Plus not_close)
              (Star (Seqs [Lit (CHR ''{''), Star not_close, Lit (CHR ''}''), Star not_close]))),
     Lit (CHR ''}'')]"

definition type_pattern :: rx where
  \<comment> \<open>\<open>type\s*=\s*([^\n]+)\<close>\<close>
  "type_pattern = Seqs [Str ''type'', Star ws, Lit (CHR ''=''), Star ws, Grp 1 (Plus not_newline)]"

definition default_pattern :: rx where
  \<comment> \<open>\<open>default\s*=\s*([^\n]+)\<close>\<close>
  "default_pattern = Seqs [Str ''default'', Star ws, Lit (CHR ''=''), Star ws, Grp 1 (Plus not_newline)]"

definition validation_block_pattern :: rx where
  \<comment> \<open>\<open>validation\s*{([^}]+)}\<close>\<close>
  "validation_block_pattern = Seqs [Str ''validation'', Star ws, Lit (CHR ''{''),
     Grp 1 (Plus not_close), Lit (CHR ''}'')]"

definition condition_pattern :: rx where
  \<comment> \<open>\<open>condition\s*=\s*([^\n]+)\<close>\<close>
  "condition_pattern = Seqs [Str ''condition'', Star ws, Lit (CHR ''=''), Star ws,
     Grp 1 (Plus not_newline)]"

definition error_message_pattern :: rx where
  \<comment> \<open>\<open>error_message\s*=\s*"([^"]+)"\<close>\<close>
  "error_message_pattern = Seqs [Str ''error_message'', Star ws, Lit (CHR ''=''), Star ws,
     Lit quote, Grp 1 (Plus not_quote), Lit quote]"

definition extract_var_type :: "string \<Rightarrow> string option" where
  "extract_var_type content =
     (case re_search type_pattern content of
        Some type_match \<Rightarrow> Some (py_strip (grp 1 type_match))
      | None \<Rightarrow> None)"

definition extract_var_default :: "string \<Rightarrow> string option" where
  "extract_var_default content =
     (case re_search default_pattern content of
        Some default_match \<Rightarrow> Some (py_strip (grp 1 default_match))
      | None \<Rightarrow> None)"

definition extract_rule :: "string \<Rightarrow> (string \<times> string) list" where
  \<comment> \<open>the rule of one validation block, when it has both a condition and a message\<close>
  "extract_rule block =
     (case (re_search condition_pattern block, re_search error_message_pattern block) of
        (Some condition_match, Some error_match) \<Rightarrow>
          [(py_strip (grp 1 condition_match), grp 1 error_match)]
      | _ \<Rightarrow> [])"

definition extract_validation_rules :: "string \<Rightarrow> (string \<times> string) list" where
  "extract_validation_rules content =
     concat (map (\<lambda>m. extract_rule (grp 1 m)) (re_findall validation_block_pattern content))"

definition variable_entry :: "string \<Rightarrow> var_info" where
  "variable_entry var_content =
     \<lparr>var_type = extract_var_type var_content,
      var_default = extract_var_default var_content,
      validation_rules = extract_validation_rules var_content\<rparr>"

definition load_variable_validations :: "module_dir \<Rightarrow> py_exn + (string \<times> var_info) list" where
  "load_variable_validations d =
     (if \<not> path_exists d ''variables.tf'' then Inr []
      else and_then (read_text d ''variables.tf'') (\<lambda>content.
             Inr (foldl (\<lambda>validations (var_name, var_content).
                           dict_set var_name (variable_entry var_content) validations)
                    [] (pairs_of (re_findall variable_block_pattern content)))))"

text \<open>The values of the test cases: strings, lists of strings, booleans and \<open>None\<close>.
  \<open>py_str\<close> is \<open>str(v)\<close>; the items of a list are shown between single quotes, which is
  what Python prints for the plain words that the test cases hold.\<close>

datatype pyval = PStr string | PList "string list" | PBool bool | PNone

fun join_items :: "string list \<Rightarrow> string" where
  "join_items [] = []"
| "join_items [x] = sq x"
| "join_items (x # y # ys) = sq x @ '', '' @ join_items (y # ys)"

fun py_str :: "pyval \<Rightarrow> string" where
  "py_str (PStr s) = s"
| "py_str (PList xs) = ''['' @ join_items xs @ '']''"
| "py_str (PBool b) = (if b then ''True'' else ''False'')"
| "py_str PNone = ''None''"

fun is_bool :: "pyval \<Rightarrow> bool" where
  "is_bool (PBool b) = True"
| "is_bool _ = False"

fun is_list :: "pyval \<Rightarrow> bool" where
  "is_list (PList xs) = True"
| "is_list _ = False"

text \<open>\<open>generate_test_cases(var_name, var_info)\<close>\<close>

definition type_has :: "string \<Rightarrow> string option \<Rightarrow> bool" where
  \<comment> \<open>\<open>var_info['type'] and word in var_info['type']\<close>\<close>
  "type_has word t = (case t of None \<Rightarrow> False | Some ty \<Rightarrow> ty \<noteq> [] \<and> py_in word ty)"

definition generate_test_cases :: "string \<Rightarrow> var_info \<Rightarrow> (pyval \<times> bool \<times> string) list" where
  "generate_test_cases var_name var_info =
     (if py_in ''region'' (py_lower var_name) then
        [(PStr ''us-east-1'', True, ''Valid US East region''),
         (PStr ''eu-west-1'', True, ''Valid EU West region''),
         (PStr ''invalid-region'', False, ''Invalid region format''),
         (PStr ''us-east'', False, ''Incomplete region format'')]
      else if py_in ''cidr'' (py_lower var_name) then
        [(PStr ''10.0.0.0/16'', True, ''Valid private CIDR''),
         (PStr ''192.168.1.0/24'', True, ''Valid private CIDR''),
         (PStr ''172.16.0.0/12'', True, ''Valid private CIDR''),
         (PStr ''invalid-cidr'', False, ''Invalid CIDR format''),
         (PStr ''10.0.0.0/33'', False, ''Invalid CIDR mask'')]
      else if py_in ''instance_type'' (py_lower var_name) then
        [(PStr ''t3.micro'', True, ''Valid instance type''),
         (PStr ''m5.large'', True, ''Valid instance type''),
         (PStr ''c5.xlarge'', True, ''Valid instance type''),
         (PStr ''invalid.type'', False, ''Invalid instance type''),
         (PStr ''nonexistent.huge'', False, ''Non-existent instance type'')]
      else if py_in ''name'' (py_lower var_name) \<or> py_in ''prefix'' (py_lower var_name) then
        [(PStr ''valid-name'', True, ''Valid name''),
         (PStr ''test123'', True, ''Valid name with numbers''),
         (PStr ''INVALID'', False, ''Uppercase not allowed''),
         (PStr ''invalid_name'', False, ''Underscores not allowed''),
         (PStr ''123invalid'', False, ''Cannot start with number'')]
      else if py_in ''environment'' (py_lower var_name) \<or> py_in ''env'' (py_lower var_name) then
        [(PStr ''dev'', True, ''Valid environment''),
         (PStr ''prod'', True, ''Valid environment''),
         (PStr ''staging'', True, ''Valid environment''),
         (PStr ''invalid-env'', False, ''Invalid environment'')]
      else if py_in ''ami'' (py_lower var_name) then
        [(PStr ''ami-12345678'', True, ''Valid AMI ID''),
         (PStr ''ami-abcdef1234567890'', True, ''Valid long AMI ID''),
         (PStr ''invalid-ami'', False, ''Invalid AMI format''),
         (PStr ''ami-'', False, ''Incomplete AMI ID'')]
      else if type_has ''list'' (var_type var_info) then
        [(PList [''item1'', ''item2''], True, ''Valid list''),
         (PList [], True, ''Empty list''),
         (PStr ''not-a-list'', False, ''Invalid type'')]
      else if type_has ''bool'' (var_type var_info) then
        [(PBool True, True, ''Valid boolean true''),
         (PBool False, True, ''Valid boolean false''),
         (PStr ''true'', False, ''String instead of boolean'')]
      else
        [(PStr ''valid-value'', True, ''Generic valid value''),
         (PStr [], False, ''Empty string''),
         (PNone, False, ''Null value'')])"

text \<open>\<open>_validate_cidr(cidr_str)\<close>: the body of the \<open>try\<close>, then the bare \<open>except\<close>.\<close>

fun check_octets :: "string list \<Rightarrow> py_exn + bool" where
  "check_octets [] = Inr True"
| "check_octets (octet # rest) =
     (if \<not> py_isdigit octet then Inr False
      else and_then (py_int octet) (\<lambda>n.
             if \<not> (0 \<le> n \<and> n \<le> 255) then Inr False else check_octets rest))"

definition check_mask :: "string \<Rightarrow> py_exn + bool" where
  "check_mask mask_str =
     (if \<not> py_isdigit mask_str then Inr False
      else and_then (py_int mask_str) (\<lambda>n.
             if \<not> (0 \<le> n \<and> n \<le> 32) then Inr False else Inr True))"

definition validate_cidr_try :: "string \<Rightarrow> py_exn + bool" where
  "validate_cidr_try cidr_str =
     (if \<not> py_in ''/'' cidr_str then Inr False
      else (case py_split cidr_str (CHR ''/'') of
              [ip, mask_str] \<Rightarrow>
                (let octets = py_split ip (CHR ''.'')
                 in if length octets \<noteq> 4 then Inr False
                    else and_then (check_octets octets) (\<lambda>ok.
                           if \<not> ok then Inr False else check_mask mask_str))
            | _ \<Rightarrow> Inl ValueError))"

definition validate_cidr :: "string \<Rightarrow> bool" where
  "validate_cidr cidr_str =
     (case validate_cidr_try cidr_str of Inl _ \<Rightarrow> False | Inr b \<Rightarrow> b)"

text \<open>\<open>simulate_validation(var_name, test_value, validation_info)\<close>. The key \<open>type\<close> is
  always present in an entry, so \<open>get\<close> returns its value, which may be \<open>None\<close>.\<close>

definition region_pattern :: rx where
  \<comment> \<open>\<open>^[a-z]{2}-[a-z]+-[0-9]$\<close>\<close>
  "region_pattern = Seqs [Bol, Times 2 (Cls is_lower), Lit (CHR ''-''), Plus (Cls is_lower),
     Lit (CHR ''-''), Cls is_digit, Eol]"

definition is_hex :: "char \<Rightarrow> bool" where
  \<comment> \<open>\<open>[0-9a-f]\<close>\<close>
  "is_hex c = (is_digit c \<or> (97 \<le> (of_char c :: nat) \<and> (of_char c :: nat) \<le> 102))"

definition ami_pattern :: rx where
  \<comment> \<open>\<open>^ami-[0-9a-f]{8,17}$\<close>\<close>
  "ami_pattern = Seqs [Bol, Str ''ami-'', Times 8 (Cls is_hex), Upto 9 (Cls is_hex), Eol]"

definition name_pattern :: rx where
  \<comment> \<open>\<open>^[a-z][a-z0-9-]*[a-z0-9]$\<close>\<close>
  "name_pattern = Seqs [Bol, Cls is_lower,
     Star (Cls (\<lambda>c. is_lower c \<or> is_digit c \<or> c = CHR ''-'')),
     Cls (\<lambda>c. is_lower c \<or> is_digit c), Eol]"

definition str_of_type :: "string option \<Rightarrow> string" where
  \<comment> \<open>\<open>str(var_type)\<close>\<close>
  "str_of_type t = (case t of None \<Rightarrow> ''None'' | Some ty \<Rightarrow> ty)"

definition simulate_validation :: "string \<Rightarrow> pyval \<Rightarrow> var_info \<Rightarrow> bool" where
  "simulate_validation var_name test_value validation_info =
     (let var_type = var_type validation_info
      in if py_in ''bool'' (str_of_type var_type) \<and> \<not> is_bool test_value then False
         else if py_in ''list'' (str_of_type var_type) \<and> \<not> is_list test_value then False
         else if py_in ''region'' (py_lower var_name)
           then re_match region_pattern (py_str test_value) \<noteq> None
         else if py_in ''cidr'' (py_lower var_name)
           then validate_cidr (py_str test_value)
         else if py_in ''ami'' (py_lower var_name)
           then re_match ami_pattern (py_str test_value) \<noteq> None
         else if py_in ''name'' (py_lower var_name) \<or> py_in ''prefix'' (py_lower var_name)
           then (case test_value of
                   PStr s \<Rightarrow> re_match name_pattern s \<noteq> None
                 | _ \<Rightarrow> False)
         else True)"

text \<open>\<open>test_variable_combinations()\<close>: the two counters go through every test case of
  every variable.\<close>

definition run_case :: "string \<Rightarrow> var_info \<Rightarrow> nat \<times> nat \<Rightarrow> pyval \<times> bool \<times> string \<Rightarrow> nat \<times> nat" where
  "run_case var_name var_info counters test_case =
     (let (total_tests, passed_tests) = counters;
          (test_value, expected_valid, description) = test_case;
          result = simulate_validation var_name test_value var_info
      in (total_tests + 1, if result = expected_valid then passed_tests + 1 else passed_tests))"

definition run_variable :: "nat \<times> nat \<Rightarrow> string \<times> var_info \<Rightarrow> nat \<times> nat" where
  "run_variable counters item =
     foldl (run_case (fst item) (snd item)) counters (generate_test_cases (fst item) (snd item))"

definition test_variable_combinations :: "module_dir \<Rightarrow> py_exn + bool" where
  "test_variable_combinations d =
     and_then (load_variable_validations d) (\<lambda>validations.
       if validations = [] then Inr False
       else (let (total_tests, passed_tests) = foldl run_variable (0, 0) validations
             in Inr (passed_tests = total_tests)))"

section \<open>comprehensive_validator.py\<close>

text \<open>
  \<open>run_validation_script\<close> starts a script as a child process and waits for it. What
  the child does is a parameter of the orchestrator: it exits with a status, or starting
  it raises, which the \<open>except\<close> clause turns into a failed check.
\<close>

datatype proc_result = Exited int | Raised

fun run_validation_script :: "proc_result \<Rightarrow> bool" where
  "run_validation_script (Exited returncode) = (returncode = 0)"
| "run_validation_script Raised = False"

text \<open>\<open>check_terraform_best_practices(module_path)\<close>: the lines of the checklist, and the
  value returned. It opens \<open>versions.tf\<close> and \<open>README.md\<close> when they exist.\<close>

definition warn_glyph :: string where
  \<comment> \<open>U+26A0 U+FE0F\<close>
  "warn_glyph = warn_mark @ [CHR 0xEF, CHR 0xB8, CHR 0x8F]"

definition party_glyph :: string where
  \<comment> \<open>U+1F389\<close>
  "party_glyph = [CHR 0xF0, CHR 0x9F, CHR 0x8E, CHR 0x89]"

definition versions_practice :: "module_dir \<Rightarrow> py_exn + string list" where
  "versions_practice d =
     (if path_exists d ''versions.tf''
      then and_then (read_text d ''versions.tf'') (\<lambda>content.
             if py_in ''required_providers'' content
             then Inr [ok_glyph @ '' Provider version constraints defined'']
             else Inr [warn_glyph @ ''  Provider version constraints missing''])
      else Inr [warn_glyph @ ''  versions.tf file missing''])"

definition examples_practice :: "module_dir \<Rightarrow> string list" where
  "examples_practice d =
     (if path_exists d ''examples'' then [ok_glyph @ '' Examples directory exists'']
      else [warn_glyph @ ''  Examples directory missing''])"

definition readme_practice :: "module_dir \<Rightarrow> py_exn + string list" where
  "readme_practice d =
     (if path_exists d ''README.md''
      then and_then (read_text d ''README.md'') (\<lambda>body.
             let readme_content = py_lower body
             in Inr ([ok_glyph @ '' README.md exists'']
                  @ (if py_in ''usage'' readme_content
                     then [ok_glyph @ '' README contains usage section'']
                     else [warn_glyph @ ''  README missing usage section''])
                  @ (if py_in ''requirements'' readme_content \<or> py_in ''prerequisites'' readme_content
                     then [ok_glyph @ '' README contains requirements section'']
                     else [warn_glyph @ ''  README missing requirements section''])))
      else Inr [no_glyph @ '' README.md missing''])"

definition gitignore_practice :: "module_dir \<Rightarrow> string list" where
  "gitignore_practice d =
     (if path_exists d ''.gitignore'' then [ok_glyph @ '' .gitignore exists'']
      else [warn_glyph @ ''  .gitignore missing''])"

definition locals_practice :: "module_dir \<Rightarrow> string list" where
  "locals_practice d =
     (if path_exists d ''locals.tf''
      then [ok_glyph @ '' locals.tf exists (good for complex expressions)'']
      else [])"

definition check_terraform_best_practices :: "module_dir \<Rightarrow> py_exn + (string list \<times> bool)" where
  "check_terraform_best_practices d =
     and_then (versions_practice d) (\<lambda>versions.
     and_then (readme_practice d) (\<lambda>readme.
       let best_practices = versions @ examples_practice d @ readme
                              @ gitignore_practice d @ locals_practice d
       in Inr (best_practices, True)))"

text \<open>\<open>generate_validation_report(module_path, results)\<close> opens
  \<open>validation_report.md\<close> for writing and writes \<open>report_text\<close> to it.\<close>

definition ln :: "string \<Rightarrow> string" where
  "ln s = s @ [newline]"

definition status_of :: "bool \<Rightarrow> string" where
  "status_of success = (if success then ok_glyph @ '' PASS'' else no_glyph @ '' FAIL'')"

definition report_text :: "string \<Rightarrow> (string \<times> bool) list \<Rightarrow> string" where
  "report_text module_path results =
     (let passed = length (filter snd results);
          total = length results
      in ln (ln ''# Terraform Module Validation Report'')
         @ ln (''**Module Path:** `'' @ module_path @ ''`'')
         @ ln (ln ''**Generated:** comprehensive_validator.py'')
         @ ln (ln ''## Validation Results'')
         @ ln (ln (''**Overall Score:** '' @ str_nat passed @ ''/'' @ str_nat total @ '' checks passed''))
         @ concat (map (\<lambda>(description, success).
                          ln (''- '' @ status_of success @ '' '' @ description)) results)
         @ [newline] @ ln (ln ''## Recommendations'')
         @ (if passed = total
            then ln (ln (party_glyph @ '' Excellent! Your module passes all validation checks.''))
                 @ ln ''### Next Steps:''
                 @ ln ''- Consider adding more comprehensive examples''
                 @ ln ''- Add integration tests if not already present''
                 @ ln ''- Document any specific deployment requirements''
            else ln (ln (warn_glyph @ '' Your module needs attention in the following areas:''))
                 @ concat (map (\<lambda>(description, success).
                                  if \<not> success
                                  then ln (''- **'' @ description @ ''**: Review and fix identified issues'')
                                  else []) results))
         @ [newline] @ ln ''---''
         @ ln ''*This report was generated automatically. Review all findings manually.*'')"

definition generate_validation_report ::
  "module_dir \<Rightarrow> string \<Rightarrow> (string \<times> bool) list \<Rightarrow> py_exn + string" where
  "generate_validation_report d module_path results =
     (if can_write d ''validation_report.md'' then Inr (report_text module_path results)
      else Inl OSError)"

text \<open>\<open>main()\<close>: the three scripts, then the best practices; the loop that counts the
  checks that passed; the report; the result.\<close>

definition scripts :: "(string \<times> string) list" where
  "scripts =
     [(''terraform_module_validator.py'', ''Module Structure and Syntax Validation''),
      (''variable_validation_tester.py'', ''Variable Validation Testing''),
      (''output_verifier.py'', ''Output Verification'')]"

definition validation_results ::
  "(string \<Rightarrow> proc_result) \<Rightarrow> module_dir \<Rightarrow> py_exn + (string \<times> bool) list" where
  "validation_results child d =
     (let results = map (\<lambda>(script, description).
                           (description, run_validation_script (child script))) scripts
      in and_then (check_terraform_best_practices d) (\<lambda>best_practices.
           Inr (results @ [(''Terraform Best Practices'', snd best_practices)])))"

fun count_passed :: "nat \<Rightarrow> (string \<times> bool) list \<Rightarrow> nat" where
  "count_passed passed [] = passed"
| "count_passed passed ((description, success) # rest) =
     count_passed (if success then passed + 1 else passed) rest"

definition main ::
  "(string \<Rightarrow> proc_result) \<Rightarrow> string \<Rightarrow> module_dir \<Rightarrow> py_exn + (string \<times> bool)" where
  \<comment> \<open>the report written, and the value returned\<close>
  "main child module_path d =
     and_then (validation_results child d) (\<lambda>results.
       let passed = count_passed 0 results;
           total = length results
       in and_then (generate_validation_report d module_path results) (\<lambda>report.
            Inr (report, passed = total)))"



section \<open>Notions of the specification\<close>

text \<open>
  The specification describes the accepted CIDR strings by their shape: four decimal
  octets between 0 and 255, separated by dots, a slash, and a decimal mask between 0 and
  32. \<open>decimal_upto hi t\<close> says that \<open>t\<close> is a non-empty string of decimal digits whose
  value is at most \<open>hi\<close>; \<open>short_decimal_upto\<close> says moreover that \<open>t\<close> has no more
  digits than \<open>int\<close> converts. \<open>claimed_cidr_shape\<close> is the shape as the specification
  words it, \<open>cidr_shape\<close> the shape with short numerals.
\<close>

definition decimal_upto :: "int \<Rightarrow> string \<Rightarrow> bool" where
  "decimal_upto hi t = (t \<noteq> [] \<and> is_decimal t \<and> 0 \<le> decimal_value t \<and> decimal_value t \<le> hi)"

definition short_decimal_upto :: "int \<Rightarrow> string \<Rightarrow> bool" where
  "short_decimal_upto hi t = (decimal_upto hi t \<and> length (py_chars t) \<le> int_max_str_digits)"

definition cidr_shape_of :: "(string \<Rightarrow> bool) \<Rightarrow> (string \<Rightarrow> bool) \<Rightarrow> string \<Rightarrow> bool" where
  "cidr_shape_of octet mask_part s =
     (\<exists>a b c d m. s = a @ ''.'' @ b @ ''.'' @ c @ ''.'' @ d @ ''/'' @ m \<and>
        octet a \<and> octet b \<and> octet c \<and> octet d \<and> mask_part m)"

definition claimed_cidr_shape :: "string \<Rightarrow> bool" where
  "claimed_cidr_shape s = cidr_shape_of (decimal_upto 255) (decimal_upto 32) s"

definition cidr_shape :: "string \<Rightarrow> bool" where
  "cidr_shape s = cidr_shape_of (short_decimal_upto 255) (short_decimal_upto 32) s"




text \<open>\<open>sep.join(parts)\<close>, the inverse of \<open>split\<close>.\<close>

fun py_join :: "char \<Rightarrow> string list \<Rightarrow> string" where
  "py_join sep [] = []"
| "py_join sep [w] = w"
| "py_join sep (w # v # rest) = w @ sep # py_join sep (v # rest)"

text \<open>
  The pattern of the simulator for names, \<open>^[a-z][a-z0-9-]*[a-z0-9]$\<close>, read as a shape: a
  lowercase letter, then lowercase letters, digits or hyphens, then a lowercase letter or
  a digit; a newline may end the text after it, as \<open>$\<close> allows.
\<close>

definition mid_char :: "char \<Rightarrow> bool" where
  "mid_char c = (is_lower c \<or> is_digit c \<or> c = CHR ''-'')"

definition end_char :: "char \<Rightarrow> bool" where
  "end_char c = (is_lower c \<or> is_digit c)"

definition name_shape :: "string \<Rightarrow> bool" where
  "name_shape v = (\<exists>c mid e. (v = c # mid @ [e] \<or> v = c # mid @ [e, newline]) \<and>
      is_lower c \<and> list_all mid_char mid \<and> end_char e)"

section \<open>Sample modules\<close>

text \<open>A module whose \<open>main.tf\<close> declares \<open>resource "aws_instance" "web"\<close> and whose
  \<open>outputs.tf\<close> has one output with the value \<open>aws_instance.web.id\<close>; the same module
  without its \<open>main.tf\<close>; and the content of an output block that has a description
  and no value.\<close>

definition web_main :: string where
  "web_main = ''resource '' @ [quote] @ ''aws_instance'' @ [quote] @ '' '' @ [quote] @ ''web'' @ [quote]
     @ '' {'' @ [newline] @ ''}'' @ [newline]"

definition web_outputs :: string where
  "web_outputs = ''output '' @ [quote] @ ''id'' @ [quote] @ '' {'' @ [newline]
     @ ''  value = aws_instance.web.id'' @ [newline] @ ''}'' @ [newline]"

definition web_module :: module_dir where
  "web_module = \<lparr>entries = [(''main.tf'', Text web_main), (''outputs.tf'', Text web_outputs)],
                  writable = True\<rparr>"

definition bare_module :: module_dir where
  "bare_module = \<lparr>entries = [(''outputs.tf'', Text web_outputs)], writable = True\<rparr>"



text \<open>A module whose \<open>variables.tf\<close> holds a comment and no variable block.\<close>

definition commented_module :: module_dir where
  "commented_module = \<lparr>entries = [(''variables.tf'', Text (''# variable names go here'' @ [newline]))],
                        writable = True\<rparr>"


text \<open>
  A complete module: the four required files, where \<open>variables.tf\<close> declares the one
  variable \<open>region\<close> and \<open>versions.tf\<close> has a \<open>required_providers\<close> block. Each of the
  three scripts exits with status 0 on it. Then the same files in a directory that may
  not be written, the same files beside a subdirectory named \<open>README.md\<close>, and the same
  files beside a \<open>README.md\<close> that can be read.
\<close>

definition region_variables :: string where
  "region_variables = ''variable '' @ [quote] @ ''region'' @ [quote] @ '' {'' @ [newline]
     @ ''  type = string'' @ [newline] @ ''}'' @ [newline]"

definition versions_text :: string where
  "versions_text = ''terraform {'' @ [newline] @ ''  required_providers {}'' @ [newline]
     @ ''}'' @ [newline]"

definition full_entries :: "(string \<times> entry) list" where
  "full_entries = [(''main.tf'', Text web_main), (''variables.tf'', Text region_variables),
     (''outputs.tf'', Text web_outputs), (''versions.tf'', Text versions_text)]"




definition readme_module :: module_dir where
  "readme_module = \<lparr>entries = full_entries
       @ [(''README.md'', Text (''# Usage'' @ [newline] @ ''Requirements: none''))],
     writable = True\<rparr>"


text \<open>A CIDR string whose first octet is 4301 zeros, and the string \<open>10.0.0.0/16\<close> written
  with the Arabic-Indic digits U+0660 to U+0669.\<close>

definition long_zero_cidr :: string where
  "long_zero_cidr = replicate 4301 (CHR ''0'') @ ''.0.0.0/8''"

definition arabic_cidr :: string where
  "arabic_cidr = [CHR 0xD9, CHR 0xA1, CHR 0xD9, CHR 0xA0] @ ''.'' @ [CHR 0xD9, CHR 0xA0] @ ''.''
     @ [CHR 0xD9, CHR 0xA0] @ ''.'' @ [CHR 0xD9, CHR 0xA0] @ ''/'' @ [CHR 0xD9, CHR 0xA1, CHR 0xD9, CHR 0xA6]"

text \<open>The entry of a variable declared with \<open>type = string\<close> and nothing else.\<close>

definition string_var :: var_info where
  "string_var = \<lparr>var_type = Some ''string'', var_default = None, validation_rules = []\<rparr>"

section \<open>Strings: counting, splitting, digits\<close>

lemma py_count_char: "py_count s [c] = count_list s c"
proof (induction s)
  case Nil
  show ?case by (simp add: py_count.simps)
next
  case (Cons x xs)
  show ?case using Cons.IH by (subst py_count.simps) simp
qed

lemma py_split_nonempty: "py_split s sep \<noteq> []"
  by (induction s) (auto split: list.splits)

lemma py_split_no_sep: "sep \<notin> set a \<Longrightarrow> py_split a sep = [a]"
  by (induction a) auto

lemma py_split_append: "sep \<notin> set a \<Longrightarrow> py_split (a @ sep # r) sep = a # py_split r sep"
  by (induction a) auto

lemma py_split_join: "py_join sep (py_split s sep) = s"
proof (induction s)
  case Nil
  show ?case by simp
next
  case (Cons c cs)
  obtain w rest where rest: "py_split cs sep = w # rest"
    using py_split_nonempty [of cs sep] by (cases "py_split cs sep") auto
  show ?case using Cons.IH rest by (cases rest) auto
qed

lemma py_in_char: "py_in [c] s = (c \<in> set s)"
  by (induction s) auto

text \<open>The characters of a string, put together again, are the string.\<close>

lemma concat_py_chars: "concat (py_chars s) = s"
  by (induction s rule: py_chars.induct) simp_all

text \<open>The bytes of a decimal digit: an ASCII digit alone, or bytes above 127 only.\<close>

lemma decimal_runs_bytes:
  "list_all (\<lambda>(p, zero). (p = [] \<and> zero = 48) \<or>
       (list_all (\<lambda>c. 128 \<le> (of_char c :: nat)) p \<and> 128 \<le> zero)) decimal_runs"
  by (simp add: decimal_runs_def)

lemma digit_value_bytes:
  assumes "digit_value ch \<noteq> None" and "c \<in> set ch"
  shows "is_digit c \<or> 128 \<le> (of_char c :: nat)"
proof -
  from assms(1) have ne: "ch \<noteq> []" by (auto simp: digit_value_def)
  from assms(1) ne obtain p zero where
    f: "find (\<lambda>(p, zero). p = butlast ch \<and> zero \<le> of_char (last ch)
          \<and> of_char (last ch) < zero + 10) decimal_runs = Some (p, zero)"
    by (auto simp: digit_value_def split: option.splits)
  then have run: "(p, zero) \<in> set decimal_runs" and p: "p = butlast ch"
    and lo: "zero \<le> of_char (last ch)" and hi: "of_char (last ch) < zero + 10"
    by (auto simp: find_Some_iff in_set_conv_nth)
  from run decimal_runs_bytes
  have shape: "(p = [] \<and> zero = 48) \<or> (list_all (\<lambda>c. 128 \<le> (of_char c :: nat)) p \<and> 128 \<le> zero)"
    by (auto simp: list_all_iff)
  from ne have ch: "ch = butlast ch @ [last ch]" by simp
  from assms(2) ch have "c \<in> set (butlast ch) \<or> c = last ch"
    by (metis Un_iff append_butlast_last_id empty_iff insert_iff list.set(1) list.set(2) ne set_append)
  with shape p lo hi show ?thesis
    by (auto simp: is_digit_def list_all_iff)
qed

lemma decimal_bytes:
  assumes "is_decimal t" and "c \<in> set t"
  shows "is_digit c \<or> 128 \<le> (of_char c :: nat)"
proof -
  from assms(2) have "c \<in> set (concat (py_chars t))" by (simp only: concat_py_chars)
  then obtain ch where ch: "ch \<in> set (py_chars t)" and c: "c \<in> set ch" by auto
  from assms(1) ch have "digit_value ch \<noteq> None" by (auto simp: is_decimal_def list_all_iff)
  from digit_value_bytes [OF this c] show ?thesis .
qed

lemma decimal_no_dot: "is_decimal t \<Longrightarrow> CHR ''.'' \<notin> set t"
  using decimal_bytes [of t "CHR ''.''"] by (auto simp: is_digit_def)

lemma decimal_no_slash: "is_decimal t \<Longrightarrow> CHR ''/'' \<notin> set t"
  using decimal_bytes [of t "CHR ''/''"] by (auto simp: is_digit_def)

lemma decimal_isdigit: "t \<noteq> [] \<Longrightarrow> is_decimal t \<Longrightarrow> py_isdigit t"
  by (auto simp: py_isdigit_def is_decimal_def list_all_iff)

text \<open>A numeral passes the test \<open>t.isdigit()\<close> and \<open>0 <= int(t) <= hi\<close> without an
  exception exactly when it is a short decimal numeral of value at most \<open>hi\<close>.\<close>

lemma py_int_Inr:
  "(py_int t = Inr n) =
     (t \<noteq> [] \<and> is_decimal t \<and> length (py_chars t) \<le> int_max_str_digits \<and> n = decimal_value t)"
  by (auto simp: py_int_def)

lemma numeral_test:
  "(py_isdigit t \<and> (\<exists>n. py_int t = Inr n \<and> 0 \<le> n \<and> n \<le> hi)) = short_decimal_upto hi t"
  by (auto simp: py_int_Inr short_decimal_upto_def decimal_upto_def decimal_isdigit)

lemma replicate_zero_chars: "py_chars (replicate n (CHR ''0'')) = replicate n ''0''"
  by (induction n) (simp_all add: char_len_def)

lemma digit_value_zero: "digit_value ''0'' = Some 0"
  by (simp add: digit_value_def decimal_runs_def)

lemma foldl_zero_digits:
  "foldl (\<lambda>a c. 10 * a + int (the (digit_value c))) 0 (replicate n ''0'') = 0"
  by (induction n) (simp_all add: digit_value_zero)

lemma zeros_decimal: "0 < n \<Longrightarrow> decimal_upto hi (replicate n (CHR ''0'')) = (0 \<le> hi)"
  by (auto simp: decimal_upto_def is_decimal_def decimal_value_def replicate_zero_chars
        foldl_zero_digits digit_value_zero list_all_iff)

section \<open>Computations that may raise, and reading a file\<close>

lemma read_text_Inr: "(read_text d name = Inr body) = (file_text d name = Some body)"
proof (cases "map_of (entries d) name")
  case None
  then show ?thesis by (simp add: read_text_def file_text_def)
next
  case (Some e)
  then show ?thesis by (cases e) (simp_all add: read_text_def file_text_def)
qed

lemma and_then_Inr: "(and_then m f = Inr y) = (\<exists>x. m = Inr x \<and> f x = Inr y)"
  by (cases m) (simp_all add: and_then_def)

lemma and_then_Inl: "(and_then m f = Inl e) = (m = Inl e \<or> (\<exists>x. m = Inr x \<and> f x = Inl e))"
  by (cases m) (simp_all add: and_then_def)

section \<open>The brace check of the syntax auditor\<close>

lemma sublist_open_count: "sublist (str_nat a) (unbalanced_msg f a b)"
  unfolding unbalanced_msg_def by (metis sublist_appendI append.assoc)

lemma sublist_close_count: "sublist (str_nat b) (unbalanced_msg f a b)"
  unfolding unbalanced_msg_def by (metis sublist_appendI append.assoc)

text \<open>
  C4. When a file has as many \<open>{\<close> as \<open>}\<close>, \<open>_check_brackets\<close> leaves the error list as
  it was. When the two counts differ, it appends exactly one error, the message
  \<open>"<filename>: Unbalanced braces - <open> open, <close> close"\<close>, and both counts occur
  in that message.
\<close>

theorem check_brackets_balance:
  "(count_list content (CHR ''{'') = count_list content (CHR ''}'') \<longrightarrow>
      errors (check_brackets content filename st) = errors st) \<and>
   (count_list content (CHR ''{'') \<noteq> count_list content (CHR ''}'') \<longrightarrow>
      errors (check_brackets content filename st) =
        errors st @ [unbalanced_msg filename (count_list content (CHR ''{''))
                       (count_list content (CHR ''}''))] \<and>
      sublist (str_nat (count_list content (CHR ''{'')))
        (unbalanced_msg filename (count_list content (CHR ''{'')) (count_list content (CHR ''}''))) \<and>
      sublist (str_nat (count_list content (CHR ''}'')))
        (unbalanced_msg filename (count_list content (CHR ''{'')) (count_list content (CHR ''}''))))"
  by (simp add: check_brackets_def py_count_char Let_def sublist_open_count sublist_close_count)

theorem check_brackets_balance_witness:
  "errors (check_brackets ''a {}'' ''main.tf'' init_findings) = [] \<and>
   errors (check_brackets ''a {'' ''main.tf'' init_findings) = [unbalanced_msg ''main.tf'' 1 0]"
  using check_brackets_balance [of "''a {}''" "''main.tf''" init_findings]
        check_brackets_balance [of "''a {''" "''main.tf''" init_findings]
  by (simp add: init_findings_def)

section \<open>The CIDR validator of the simulator\<close>

text \<open>The loop over the octets returns \<open>True\<close> exactly when every octet passes; it
  may also return \<open>False\<close> or raise.\<close>

lemma check_octets_True:
  "(check_octets octets = Inr True) = list_all (short_decimal_upto 255) octets"
proof (induction octets)
  case Nil
  show ?case by simp
next
  case (Cons octet rest)
  show ?case
  proof (cases "py_isdigit octet")
    case False
    then show ?thesis using numeral_test [of octet 255] by auto
  next
    case True
    show ?thesis
    proof (cases "py_int octet")
      case (Inl e)
      with True show ?thesis using numeral_test [of octet 255] by (auto simp: and_then_def)
    next
      case (Inr n)
      with True Cons.IH show ?thesis using numeral_test [of octet 255]
        by (auto simp: and_then_def)
    qed
  qed
qed

lemma check_mask_True: "(check_mask m = Inr True) = short_decimal_upto 32 m"
proof (cases "py_isdigit m")
  case False
  then show ?thesis using numeral_test [of m 32] by (auto simp: check_mask_def)
next
  case True
  then show ?thesis using numeral_test [of m 32]
    by (cases "py_int m") (auto simp: check_mask_def and_then_def)
qed

lemma validate_cidr_True: "validate_cidr s = (validate_cidr_try s = Inr True)"
  by (cases "validate_cidr_try s") (auto simp: validate_cidr_def)

lemma validate_cidr_iff:
  "validate_cidr s =
     (\<exists>ip m a b c d. py_split s (CHR ''/'') = [ip, m] \<and> py_split ip (CHR ''.'') = [a, b, c, d] \<and>
        short_decimal_upto 255 a \<and> short_decimal_upto 255 b \<and> short_decimal_upto 255 c \<and>
        short_decimal_upto 255 d \<and> short_decimal_upto 32 m)"
  (is "_ = ?R")
proof -
  have slash: "py_in ''/'' s" if "py_split s (CHR ''/'') = [ip, m]" for ip m
  proof (rule ccontr)
    assume "\<not> py_in ''/'' s"
    then have "CHR ''/'' \<notin> set s" by (simp add: py_in_char)
    then have "py_split s (CHR ''/'') = [s]" by (rule py_split_no_sep)
    with that show False by simp
  qed
  have body: "(validate_cidr_try s = Inr True) =
      (length (py_split ip (CHR ''.'')) = 4 \<and> check_octets (py_split ip (CHR ''.'')) = Inr True
         \<and> check_mask m = Inr True)"
    if sp: "py_split s (CHR ''/'') = [ip, m]" for ip m
  proof (cases "check_octets (py_split ip (CHR ''.''))")
    case (Inl e)
    with slash [OF sp] sp show ?thesis
      by (simp add: validate_cidr_try_def Let_def and_then_def)
  next
    case (Inr ok)
    with slash [OF sp] sp show ?thesis
      by (simp add: validate_cidr_try_def Let_def and_then_def)
  qed
  show ?thesis
  proof
    assume v: "validate_cidr s"
    then have t: "validate_cidr_try s = Inr True" by (simp only: validate_cidr_True)
    then obtain ip m where sp: "py_split s (CHR ''/'') = [ip, m]"
      by (auto simp: validate_cidr_try_def split: if_splits list.splits)
    from t body [OF sp] have len: "length (py_split ip (CHR ''.'')) = 4"
      and oct: "check_octets (py_split ip (CHR ''.'')) = Inr True"
      and mk: "check_mask m = Inr True" by simp_all
    from len obtain a b c d where ip: "py_split ip (CHR ''.'') = [a, b, c, d]"
      by (auto simp: length_Suc_conv numeral_eq_Suc)
    from oct have "list_all (short_decimal_upto 255) (py_split ip (CHR ''.''))"
      by (simp only: check_octets_True)
    with ip have "short_decimal_upto 255 a \<and> short_decimal_upto 255 b \<and>
        short_decimal_upto 255 c \<and> short_decimal_upto 255 d"
      by simp
    moreover from mk have "short_decimal_upto 32 m" by (simp only: check_mask_True)
    ultimately show ?R using sp ip by blast
  next
    assume ?R
    then obtain ip m a b c d where sp: "py_split s (CHR ''/'') = [ip, m]"
      and ip: "py_split ip (CHR ''.'') = [a, b, c, d]"
      and ok: "short_decimal_upto 255 a" "short_decimal_upto 255 b" "short_decimal_upto 255 c"
        "short_decimal_upto 255 d" "short_decimal_upto 32 m" by blast
    have "check_octets (py_split ip (CHR ''.'')) = Inr True"
      using ip ok by (simp only: check_octets_True) simp
    moreover have "check_mask m = Inr True" using ok by (simp only: check_mask_True)
    moreover have "length (py_split ip (CHR ''.'')) = 4" using ip by simp
    ultimately have "validate_cidr_try s = Inr True" using body [OF sp] by simp
    then show "validate_cidr s" by (simp only: validate_cidr_True)
  qed
qed

lemma validate_cidr_shape: "validate_cidr s = cidr_shape s"
proof
  assume "validate_cidr s"
  then obtain ip m a b c d where sp: "py_split s (CHR ''/'') = [ip, m]"
      and ip: "py_split ip (CHR ''.'') = [a, b, c, d]"
      and ok: "short_decimal_upto 255 a" "short_decimal_upto 255 b" "short_decimal_upto 255 c"
        "short_decimal_upto 255 d" "short_decimal_upto 32 m" unfolding validate_cidr_iff by blast
  have "s = py_join (CHR ''/'') [ip, m]" using py_split_join [of "CHR ''/''" s] sp by simp
  moreover have "ip = py_join (CHR ''.'') [a, b, c, d]"
    using py_split_join [of "CHR ''.''" ip] ip by simp
  ultimately have "s = a @ ''.'' @ b @ ''.'' @ c @ ''.'' @ d @ ''/'' @ m" by simp
  with ok show "cidr_shape s" unfolding cidr_shape_def cidr_shape_of_def by blast
next
  assume "cidr_shape s"
  then obtain a b c d m where s: "s = a @ ''.'' @ b @ ''.'' @ c @ ''.'' @ d @ ''/'' @ m"
      and ok: "short_decimal_upto 255 a" "short_decimal_upto 255 b" "short_decimal_upto 255 c"
        "short_decimal_upto 255 d" "short_decimal_upto 32 m"
    unfolding cidr_shape_def cidr_shape_of_def by blast
  from ok have dec: "is_decimal a" "is_decimal b" "is_decimal c" "is_decimal d" "is_decimal m"
    by (simp_all add: short_decimal_upto_def decimal_upto_def)
  have nd: "CHR ''.'' \<notin> set a" "CHR ''.'' \<notin> set b" "CHR ''.'' \<notin> set c" "CHR ''.'' \<notin> set d"
    using dec by (simp_all add: decimal_no_dot)
  have ns: "CHR ''/'' \<notin> set a" "CHR ''/'' \<notin> set b" "CHR ''/'' \<notin> set c" "CHR ''/'' \<notin> set d"
      "CHR ''/'' \<notin> set m"
    using dec by (simp_all add: decimal_no_slash)
  let ?ip = "a @ ''.'' @ b @ ''.'' @ c @ ''.'' @ d"
  have "CHR ''/'' \<notin> set ?ip" using ns by simp
  then have "py_split (?ip @ CHR ''/'' # m) (CHR ''/'') = ?ip # py_split m (CHR ''/'')"
    by (rule py_split_append)
  then have sp: "py_split s (CHR ''/'') = [?ip, m]"
    using s ns(5) by (simp add: py_split_no_sep)
  have "py_split (a @ CHR ''.'' # b @ CHR ''.'' # c @ CHR ''.'' # d) (CHR ''.'') = [a, b, c, d]"
    using nd by (simp add: py_split_append py_split_no_sep)
  then have ip: "py_split ?ip (CHR ''.'') = [a, b, c, d]" by simp
  show "validate_cidr s" unfolding validate_cidr_iff using sp ip ok by blast
qed

lemma validate_cidr_16: "validate_cidr ''10.0.0.0/16''"
  by code_simp

lemma validate_cidr_33: "\<not> validate_cidr ''10.0.0.0/33''"
  by code_simp

lemma validate_cidr_arabic: "validate_cidr arabic_cidr"
  by code_simp

text \<open>The string whose first octet is 4301 zeros.\<close>

lemma long_zero_split:
  "py_split long_zero_cidr (CHR ''/'') = [replicate 4301 (CHR ''0'') @ ''.0.0.0'', ''8'']"
proof -
  have "CHR ''/'' \<notin> set (replicate 4301 (CHR ''0'') @ ''.0.0.0'')" by simp
  from py_split_append [OF this, of "''8''"] show ?thesis
    by (simp add: long_zero_cidr_def)
qed

lemma long_zero_octets:
  "py_split (replicate 4301 (CHR ''0'') @ ''.0.0.0'') (CHR ''.'')
     = [replicate 4301 (CHR ''0''), ''0'', ''0'', ''0'']"
proof -
  have "CHR ''.'' \<notin> set (replicate 4301 (CHR ''0''))" by simp
  from py_split_append [OF this, of "''0.0.0''"] show ?thesis by simp
qed

lemma long_zero_claimed: "claimed_cidr_shape long_zero_cidr"
proof -
  have z: "decimal_upto 255 (replicate 4301 (CHR ''0''))" by (simp add: zeros_decimal)
  have o: "decimal_upto 255 ''0''" using zeros_decimal [of 1 255] by simp
  have m: "decimal_upto 32 ''8''" by code_simp
  have "long_zero_cidr = replicate 4301 (CHR ''0'') @ ''.'' @ ''0'' @ ''.'' @ ''0'' @ ''.'' @ ''0'' @ ''/'' @ ''8''"
    by (simp add: long_zero_cidr_def)
  with z o m show ?thesis unfolding claimed_cidr_shape_def cidr_shape_of_def by blast
qed

lemma long_zero_rejected: "\<not> validate_cidr long_zero_cidr"
proof
  assume "validate_cidr long_zero_cidr"
  then have "short_decimal_upto 255 (replicate 4301 (CHR ''0''))"
    unfolding validate_cidr_iff long_zero_split by (auto simp: long_zero_octets)
  then show False
    by (simp add: short_decimal_upto_def replicate_zero_chars int_max_str_digits_def)
qed

text \<open>
  C5, as stated, fails. The string made of 4301 zeros and then \<open>.0.0.0/8\<close> has one
  slash, four dot-separated decimal octets of the values 0, 0, 0, 0 and the decimal mask
  8, and \<open>_validate_cidr\<close> returns \<open>False\<close> for it: \<open>int\<close> raises \<open>ValueError\<close> on a
  numeral of more than 4300 digits, and the bare \<open>except\<close> turns that into \<open>False\<close>.
\<close>

theorem cidr_long_octet_rejected:
  "claimed_cidr_shape long_zero_cidr \<and> validate_cidr long_zero_cidr = False"
  using long_zero_claimed long_zero_rejected by simp

text \<open>
  C5, amended. \<open>_validate_cidr\<close> returns true for \<open>"10.0.0.0/16"\<close> and false for
  \<open>"10.0.0.0/33"\<close>, and in general it returns true exactly for the strings made of four
  dot-separated decimal octets between 0 and 255, one slash, and a decimal mask between 0
  and 32, where each of the five numerals has at least one and at most 4300 digits. The
  digits are the decimal digits of Unicode, those of \<open>0\<close> to \<open>9\<close> and those of other
  scripts; leading zeros are allowed.
\<close>

theorem validate_cidr_spec:
  "validate_cidr ''10.0.0.0/16'' \<and> \<not> validate_cidr ''10.0.0.0/33'' \<and>
   (\<forall>s. validate_cidr s = cidr_shape s)"
  using validate_cidr_16 validate_cidr_33 validate_cidr_shape by blast

theorem validate_cidr_spec_witness:
  "cidr_shape ''10.0.0.0/16'' \<and> \<not> cidr_shape ''10.0.0.0/33'' \<and>
   validate_cidr arabic_cidr \<and> cidr_shape arabic_cidr \<and> \<not> cidr_shape long_zero_cidr"
  using validate_cidr_spec validate_cidr_arabic long_zero_rejected by metis

section \<open>The matcher: a pattern that extends a failing pattern fails\<close>






section \<open>The output reference verifier\<close>

lemma set_order_remdups: "set_order remdups"
  by (simp add: set_order_def)

lemma set_order_single: "set_order it \<Longrightarrow> it [x] = [x]"
proof -
  assume "set_order it"
  then have d: "distinct (it [x])" and s: "set (it [x]) = {x}" by (simp_all add: set_order_def)
  from s obtain y ys where c: "it [x] = y # ys" by (cases "it [x]") auto
  with s d have "y = x" "set ys \<subseteq> {x}" "x \<notin> set ys" by auto
  then have "ys = []" by (cases ys) auto
  with c \<open>y = x\<close> show ?thesis by simp
qed


subsection \<open>The rounds of the loop over the outputs\<close>

text \<open>
  When both files can be read, \<open>verify_output_references\<close> runs \<open>verify_output\<close> once
  for each entry of the dictionary of outputs, in order. The entries have distinct names,
  and each is built by \<open>output_entry\<close> from the content of a block that \<open>output_pattern\<close>
  matches in \<open>outputs.tf\<close>; of two blocks with one name the later one takes the entry.
\<close>

lemma verify_output_references_rounds:
  assumes "load_resources d = Inr (resources, data_sources)" and "load_outputs d = Inr outputs"
  shows "verify_output_references it d st =
     Inr (foldl (\<lambda>st item. verify_output it (available_refs resources data_sources) item st)
            st outputs)"
  using assms by (simp add: verify_output_references_def and_then_def)

lemma dict_set_keys:
  "map fst (dict_set k v kvs) = (if k \<in> fst ` set kvs then map fst kvs else map fst kvs @ [k])"
  by (induction k v kvs rule: dict_set.induct) (auto simp: image_iff)

lemma dict_set_distinct: "distinct (map fst kvs) \<Longrightarrow> distinct (map fst (dict_set k v kvs))"
  by (simp add: dict_set_keys)

lemma dict_set_entries: "set (dict_set k v kvs) \<subseteq> insert (k, v) (set kvs)"
  by (induction k v kvs rule: dict_set.induct) auto

lemma foldl_dict_set:
  "distinct (map fst acc) \<Longrightarrow>
     distinct (map fst (foldl (\<lambda>acc (n, c). dict_set n (f c) acc) acc xs)) \<and>
     set (foldl (\<lambda>acc (n, c). dict_set n (f c) acc) acc xs)
       \<subseteq> set acc \<union> (\<lambda>(n, c). (n, f c)) ` set xs"
proof (induction xs arbitrary: acc)
  case Nil
  then show ?case by simp
next
  case (Cons x xs)
  obtain n c where x: "x = (n, c)" by (cases x)
  have d: "distinct (map fst (dict_set n (f c) acc))" using Cons.prems by (rule dict_set_distinct)
  from Cons.IH [OF d] dict_set_entries [of n "f c" acc] show ?case
    unfolding x by auto
qed

lemma load_outputs_entries:
  assumes "load_outputs d = Inr outputs"
  shows "distinct (map fst outputs) \<and>
   (\<forall>item \<in> set outputs.
      \<exists>body content. file_text d ''outputs.tf'' = Some body \<and>
        (fst item, content) \<in> set (pairs_of (re_findall output_pattern body)) \<and>
        snd item = output_entry content)"
proof (cases "path_exists d ''outputs.tf''")
  case False
  with assms show ?thesis by (simp add: load_outputs_def)
next
  case True
  with assms obtain body where body: "read_text d ''outputs.tf'' = Inr body"
    and outputs: "outputs = foldl (\<lambda>output_details (output_name, output_content).
                           dict_set output_name (output_entry output_content) output_details)
                    [] (pairs_of (re_findall output_pattern body))"
    by (auto simp: load_outputs_def and_then_Inr)
  have f: "file_text d ''outputs.tf'' = Some body" using body by (simp only: read_text_Inr)
  have "distinct (map fst ([] :: (string \<times> output_info) list))" by simp
  from foldl_dict_set [OF this, of output_entry "pairs_of (re_findall output_pattern body)"]
  show ?thesis unfolding outputs using f by fastforce
qed

subsection \<open>The loop over the references found in a value\<close>











subsection \<open>An output without a value\<close>







subsection \<open>The value \<open>aws_instance.web.id\<close>\<close>

lemma split_unique:
  "c \<notin> set a \<Longrightarrow> c \<notin> set b \<Longrightarrow> t @ c # n = a @ c # b \<Longrightarrow> t = a \<and> n = b"
proof (induction a arbitrary: t)
  case Nil
  then show ?case by (cases t) auto
next
  case (Cons y a')
  then show ?case by (cases t) auto
qed

lemma web_ref_unique:
  assumes "t @ ''.'' @ n = ''aws_instance.web''"
  shows "t = ''aws_instance'' \<and> n = ''web''"
proof -
  have "t @ CHR ''.'' # n = ''aws_instance'' @ CHR ''.'' # ''web''" using assms by simp
  moreover have "CHR ''.'' \<notin> set ''aws_instance''" by simp
  moreover have "CHR ''.'' \<notin> set ''web''" by simp
  ultimately show ?thesis by (rule split_unique [rotated 2])
qed

lemma web_available:
  "(''aws_instance.web'' \<in> available_refs resources data_sources)
     = ((''aws_instance'', ''web'') \<in> set resources)"
proof
  assume "''aws_instance.web'' \<in> available_refs resources data_sources"
  then consider (r) t n where "(t, n) \<in> set resources" "t @ ''.'' @ n = ''aws_instance.web''"
    | (d) t n where "(t, n) \<in> set data_sources" "''data.'' @ t @ ''.'' @ n = ''aws_instance.web''"
    unfolding available_refs_def by (auto split: prod.splits)
  then show "(''aws_instance'', ''web'') \<in> set resources"
  proof cases
    case r
    from web_ref_unique [OF r(2)] r(1) show ?thesis by simp
  next
    case d
    then show ?thesis by simp
  qed
next
  assume "(''aws_instance'', ''web'') \<in> set resources"
  then have "''aws_instance'' @ ''.'' @ ''web''
      \<in> set (map (\<lambda>(resource_type, resource_name). resource_type @ ''.'' @ resource_name) resources)"
    by force
  then show "''aws_instance.web'' \<in> available_refs resources data_sources"
    unfolding available_refs_def by simp
qed

lemma found_web: "found_refs ''aws_instance.web.id'' = [''aws_instance.web'']"
  by code_simp

lemma web_not_var_local: "\<not> is_var_local ''aws_instance.web''"
  by (simp add: is_var_local_def startswith_def)

lemma check_description_errors: "errors (check_description n oi st) = errors st"
  by (simp add: check_description_def)

lemma verify_web_value:
  assumes "set_order it"
  shows "verify_value_references it n ''aws_instance.web.id'' av st =
           check_ref n av ''aws_instance.web'' st"
  by (simp add: verify_value_references_def found_web set_order_single [OF assms])

text \<open>
  C1. Let the resources and data sources be those that \<open>load_resources\<close> finds in the
  main file, and let an output have exactly the value \<open>aws_instance.web.id\<close>. If the
  main file declares the resource \<open>"aws_instance" "web"\<close>, the round of
  \<open>verify_output_references\<close> for that output records the info finding that
  \<open>aws_instance.web\<close> is a valid reference and records no error. If the main file does not
  declare it, the round records the error that \<open>aws_instance.web\<close> is an invalid reference,
  and no info finding about the reference; the data sources make no difference.
\<close>

theorem web_reference_classified:
  assumes "set_order it" and "load_resources d = Inr (resources, data_sources)"
    and "out_value output_info = Some ''aws_instance.web.id''"
  shows "((''aws_instance'', ''web'') \<in> set resources \<longrightarrow>
            info (verify_output it (available_refs resources data_sources) (output_name, output_info) st)
              = info (check_description output_name output_info st)
                  @ [has_value_msg output_name, valid_ref_msg output_name ''aws_instance.web''] \<and>
            errors (verify_output it (available_refs resources data_sources) (output_name, output_info) st)
              = errors st) \<and>
         ((''aws_instance'', ''web'') \<notin> set resources \<longrightarrow>
            errors (verify_output it (available_refs resources data_sources) (output_name, output_info) st)
              = errors st @ [invalid_ref_msg output_name ''aws_instance.web''] \<and>
            info (verify_output it (available_refs resources data_sources) (output_name, output_info) st)
              = info (check_description output_name output_info st) @ [has_value_msg output_name])"
proof -
  have t: "truthy (out_value output_info)" "the (out_value output_info) = ''aws_instance.web.id''"
    using assms(3) by simp_all
  have v: "verify_output it (available_refs resources data_sources) (output_name, output_info) st
      = check_ref output_name (available_refs resources data_sources) ''aws_instance.web''
          ((check_description output_name output_info st)
             \<lparr>info := info (check_description output_name output_info st) @ [has_value_msg output_name]\<rparr>)"
    by (simp add: verify_output_def Let_def t verify_web_value [OF assms(1)])
  show ?thesis
    unfolding v
    by (simp add: check_ref_def web_not_var_local web_available check_description_errors)
qed

lemma web_resources: "load_resources web_module = Inr ([(''aws_instance'', ''web'')], [])"
  by code_simp

lemma bare_resources: "load_resources bare_module = Inr ([], [])"
  by code_simp

lemma web_outputs_loaded:
  "(case load_outputs web_module of
      Inl e \<Rightarrow> False
    | Inr outputs \<Rightarrow> map fst outputs = [''id''] \<and>
        map (out_value \<circ> snd) outputs = [Some ''aws_instance.web.id''] \<and>
        map (out_description \<circ> snd) outputs = [None])"
  by code_simp

lemma web_run:
  "(case verify_output_references remdups web_module init_verifier of
      Inl e \<Rightarrow> False
    | Inr st \<Rightarrow> errors st = [] \<and>
        info st = [has_value_msg ''id'', valid_ref_msg ''id'' ''aws_instance.web''])"
  by code_simp

lemma bare_run:
  "(case verify_output_references remdups bare_module init_verifier of
      Inl e \<Rightarrow> False
    | Inr st \<Rightarrow> errors st = [invalid_ref_msg ''id'' ''aws_instance.web''] \<and>
        info st = [has_value_msg ''id''])"
  by code_simp

theorem web_reference_classified_witness:
  "set_order remdups \<and> load_resources web_module = Inr ([(''aws_instance'', ''web'')], []) \<and>
   load_resources bare_module = Inr ([], []) \<and>
   info (verify_output remdups (available_refs [(''aws_instance'', ''web'')] [])
           (''id'', \<lparr>out_description = None, out_value = Some ''aws_instance.web.id'',
                      out_sensitive = False\<rparr>) init_verifier)
     = [has_value_msg ''id'', valid_ref_msg ''id'' ''aws_instance.web''] \<and>
   errors (verify_output remdups (available_refs [] [])
           (''id'', \<lparr>out_description = None, out_value = Some ''aws_instance.web.id'',
                      out_sensitive = False\<rparr>) init_verifier)
     = [invalid_ref_msg ''id'' ''aws_instance.web''] \<and>
   (case verify_output_references remdups web_module init_verifier of
      Inl e \<Rightarrow> False
    | Inr st \<Rightarrow> errors st = [] \<and>
        info st = [has_value_msg ''id'', valid_ref_msg ''id'' ''aws_instance.web'']) \<and>
   (case verify_output_references remdups bare_module init_verifier of
      Inl e \<Rightarrow> False
    | Inr st \<Rightarrow> errors st = [invalid_ref_msg ''id'' ''aws_instance.web''] \<and>
        info st = [has_value_msg ''id''])"
proof -
  let ?oi = "\<lparr>out_description = None, out_value = Some ''aws_instance.web.id'', out_sensitive = False\<rparr>"
  have v: "out_value ?oi = Some ''aws_instance.web.id''" by simp
  have a: "info (verify_output remdups (available_refs [(''aws_instance'', ''web'')] [])
           (''id'', ?oi) init_verifier)
     = info (check_description ''id'' ?oi init_verifier)
         @ [has_value_msg ''id'', valid_ref_msg ''id'' ''aws_instance.web'']"
    using web_reference_classified [OF set_order_remdups web_resources v, of "''id''" init_verifier]
    by simp
  have b: "errors (verify_output remdups (available_refs [] []) (''id'', ?oi) init_verifier)
     = errors init_verifier @ [invalid_ref_msg ''id'' ''aws_instance.web'']"
    using web_reference_classified [OF set_order_remdups bare_resources v, of "''id''" init_verifier]
    by simp
  have c: "info (check_description ''id'' ?oi init_verifier) = []"
    by (simp add: check_description_def init_verifier_def)
  have d: "errors init_verifier = []" by (simp add: init_verifier_def)
  show ?thesis
    using a b web_run bare_run set_order_remdups web_resources bare_resources
    unfolding c d by simp
qed

section \<open>The structure checker\<close>

subsection \<open>No check removes an error\<close>
























subsection \<open>When the run returns\<close>














subsection \<open>A required file is missing\<close>







section \<open>The orchestrator\<close>




subsection \<open>The results list\<close>









subsection \<open>The exit status\<close>












subsection \<open>The best-practices check\<close>





lemma readme_practices:
  "check_terraform_best_practices readme_module =
     Inr ([ok_glyph @ '' Provider version constraints defined'',
           warn_glyph @ ''  Examples directory missing'',
           ok_glyph @ '' README.md exists'', ok_glyph @ '' README contains usage section'',
           ok_glyph @ '' README contains requirements section'',
           warn_glyph @ ''  .gitignore missing''], True)"
  by code_simp


section \<open>The validation simulator without variables\<close>

lemma findall_from_None: "search_from r p s = None \<Longrightarrow> findall_from r k p s = []"
proof (induction s arbitrary: p k)
  case Nil
  then show ?case by (simp del: match_here.simps)
next
  case (Cons c cs)
  from Cons.prems have m: "match_here r p (c # cs) = None" and n: "search_from r (Suc p) cs = None"
    by (auto simp del: match_here.simps split: option.splits)
  show ?case using m Cons.IH [OF n] by (simp del: match_here.simps)
qed

lemma findall_None: "re_search r s = None \<Longrightarrow> re_findall r s = []"
  by (simp add: re_search_def re_findall_def findall_from_None)

text \<open>
  C10. If \<open>variables.tf\<close> is missing, or it is a text in which the variable-block pattern
  matches nowhere, no variable is extracted, and \<open>test_variable_combinations\<close> returns
  \<open>False\<close>: the script exits with status 1.
\<close>

theorem no_variables_is_failure:
  assumes "\<not> path_exists d ''variables.tf'' \<or>
           (\<exists>content. file_text d ''variables.tf'' = Some content \<and>
                      re_search variable_block_pattern content = None)"
  shows "load_variable_validations d = Inr [] \<and> test_variable_combinations d = Inr False \<and>
         script_exit (test_variable_combinations d) = 1"
proof -
  have "load_variable_validations d = Inr []"
  proof (cases "path_exists d ''variables.tf''")
    case False
    then show ?thesis by (simp add: load_variable_validations_def)
  next
    case True
    with assms obtain content where f: "file_text d ''variables.tf'' = Some content"
      and n: "re_search variable_block_pattern content = None" by blast
    from f have "read_text d ''variables.tf'' = Inr content" by (simp only: read_text_Inr)
    with True n show ?thesis
      by (simp add: load_variable_validations_def and_then_def pairs_of_def findall_None)
  qed
  then show ?thesis
    by (simp add: test_variable_combinations_def and_then_def script_exit_def exit_status_def)
qed

lemma bare_no_variables: "\<not> path_exists bare_module ''variables.tf''"
  by code_simp

lemma commented_variables:
  "path_exists commented_module ''variables.tf'' \<and>
   file_text commented_module ''variables.tf'' = Some (''# variable names go here'' @ [newline]) \<and>
   re_search variable_block_pattern (''# variable names go here'' @ [newline]) = None"
  by code_simp

theorem no_variables_is_failure_witness:
  "\<not> path_exists bare_module ''variables.tf'' \<and> test_variable_combinations bare_module = Inr False \<and>
   path_exists commented_module ''variables.tf'' \<and>
   re_search variable_block_pattern (''# variable names go here'' @ [newline]) = None \<and>
   test_variable_combinations commented_module = Inr False \<and>
   script_exit (test_variable_combinations commented_module) = 1"
  using no_variables_is_failure [of bare_module] no_variables_is_failure [of commented_module]
        bare_no_variables commented_variables
  by blast

text \<open>A \<open>variables.tf\<close> that exists and cannot be read is another matter: the simulator
  raises, and the script exits with status 1 without a result.\<close>

lemma unreadable_variables_raise:
  assumes "path_exists d ''variables.tf''" and "file_text d ''variables.tf'' = None"
  shows "(\<exists>e. test_variable_combinations d = Inl e) \<and>
         script_exit (test_variable_combinations d) = 1"
proof (cases "read_text d ''variables.tf''")
  case (Inl e)
  with assms(1) have "load_variable_validations d = Inl e"
    by (simp add: load_variable_validations_def and_then_def)
  then show ?thesis by (simp add: test_variable_combinations_def and_then_def script_exit_def)
next
  case (Inr content)
  then have "file_text d ''variables.tf'' = Some content" by (simp only: read_text_Inr)
  with assms(2) show ?thesis by simp
qed

section \<open>The name rule of the simulator\<close>

subsection \<open>A greedy repetition of a character class\<close>

lemma run_Cls_step: "run (Cls P) = step P"
  by (rule ext) simp

lemma starn_cls:
  "length s \<le> n \<Longrightarrow>
     set (starn n (step P) (p, s, g)) = (\<lambda>k. (p + k, drop k s, g)) ` {k. k \<le> length (takeWhile P s)}"
proof (induction n arbitrary: p s)
  case 0
  then show ?case by simp
next
  case (Suc n)
  show ?case
  proof (cases s)
    case Nil
    then show ?thesis by simp
  next
    case (Cons x xs)
    show ?thesis
    proof (cases "P x")
      case False
      then show ?thesis using Cons by simp
    next
      case True
      have len: "length xs \<le> n" using Suc.prems Cons by simp
      have "set (starn (Suc n) (step P) (p, s, g))
          = set (starn n (step P) (Suc p, xs, g)) \<union> {(p, s, g)}"
        using Cons True by simp
      also have "\<dots> = (\<lambda>k. (Suc p + k, drop k xs, g)) ` {k. k \<le> length (takeWhile P xs)} \<union> {(p, s, g)}"
        by (simp only: Suc.IH [OF len])
      also have "\<dots> = (\<lambda>k. (p + k, drop k s, g)) ` {k. k \<le> length (takeWhile P s)}"
      proof (rule set_eqI, rule iffI)
        fix st
        assume "st \<in> (\<lambda>k. (Suc p + k, drop k xs, g)) ` {k. k \<le> length (takeWhile P xs)} \<union> {(p, s, g)}"
        then consider (a) k where "k \<le> length (takeWhile P xs)" "st = (Suc p + k, drop k xs, g)"
          | (b) "st = (p, s, g)" by auto
        then show "st \<in> (\<lambda>k. (p + k, drop k s, g)) ` {k. k \<le> length (takeWhile P s)}"
        proof cases
          case a
          then have "Suc k \<le> length (takeWhile P s)" "st = (p + Suc k, drop (Suc k) s, g)"
            using Cons True by simp_all
          then show ?thesis by blast
        next
          case b
          then have "0 \<le> length (takeWhile P s)" "st = (p + 0, drop 0 s, g)" by simp_all
          then show ?thesis by blast
        qed
      next
        fix st
        assume "st \<in> (\<lambda>k. (p + k, drop k s, g)) ` {k. k \<le> length (takeWhile P s)}"
        then obtain k where k: "k \<le> length (takeWhile P s)" "st = (p + k, drop k s, g)" by auto
        show "st \<in> (\<lambda>k. (Suc p + k, drop k xs, g)) ` {k. k \<le> length (takeWhile P xs)} \<union> {(p, s, g)}"
        proof (cases k)
          case 0
          then show ?thesis using k by simp
        next
          case (Suc j)
          then have "j \<le> length (takeWhile P xs)" "st = (Suc p + j, drop j xs, g)"
            using k Cons True by simp_all
          then show ?thesis by blast
        qed
      qed
      finally show ?thesis .
    qed
  qed
qed

lemma run_Star_Cls:
  "set (run (Star (Cls P)) (p, s, g)) = (\<lambda>k. (p + k, drop k s, g)) ` {k. k \<le> length (takeWhile P s)}"
  by (simp add: run_Cls_step starn_cls)

lemma set_run_Seq: "set (run (Seq a b) st) = (\<Union>st' \<in> set (run a st). set (run b st'))"
  by simp

lemma set_step: "set (step P (p, s, g)) = {(Suc p, tl s, g) | x. s \<noteq> [] \<and> P (hd s)}"
  by (cases s) auto

lemma name_pattern_alt:
  "name_pattern = Seq Bol (Seq (Cls is_lower) (Seq (Star (Cls mid_char)) (Seq (Cls end_char) (Seq Eol Eps))))"
  by (simp add: name_pattern_def mid_char_def [abs_def] end_char_def [abs_def])

lemma run_frame:
  "set (run (Seq Bol (Seq (Cls L) (Seq r (Seq (Cls E) (Seq Eol Eps))))) (0, v, g)) =
     {s3. \<exists>s1 s2. s1 \<in> set (step L (0, v, g)) \<and> s2 \<in> set (run r s1) \<and>
            s3 \<in> set (step E s2) \<and> at_end s3}"
  by (auto split: if_splits) blast+

lemma name_run:
  "(run name_pattern (0, v, Map.empty) \<noteq> []) =
     (\<exists>c rest k e tail. v = c # rest \<and> is_lower c \<and> k \<le> length (takeWhile mid_char rest) \<and>
        drop k rest = e # tail \<and> end_char e \<and> (tail = [] \<or> tail = [newline]))"
  (is "?L = ?R")
proof
  assume ?L
  then obtain st where "st \<in> set (run name_pattern (0, v, Map.empty))"
    by (cases "run name_pattern (0, v, Map.empty)") auto
  then obtain s1 s2 where
      s1: "s1 \<in> set (step is_lower (0, v, Map.empty))"
      and s2: "s2 \<in> set (run (Star (Cls mid_char)) s1)"
      and s3: "st \<in> set (step end_char s2)" and e: "at_end st"
    unfolding name_pattern_alt run_frame by blast
  from s1 obtain c rest where v: "v = c # rest" "is_lower c" "s1 = (1, rest, Map.empty)"
    by (cases v) (auto split: if_splits)
  from s2 obtain k where k: "k \<le> length (takeWhile mid_char rest)" "s2 = (1 + k, drop k rest, Map.empty)"
    unfolding v(3) run_Star_Cls by auto
  from s3 obtain e' tail where d: "drop k rest = e' # tail" "end_char e'"
      "st = (Suc (1 + k), tail, Map.empty)"
    unfolding k(2) by (cases "drop k rest") (auto split: if_splits)
  from e d(3) have "tail = [] \<or> tail = [newline]" by (simp add: newline_def)
  with v k d show ?R by blast
next
  assume ?R
  then obtain c rest k e tail where v: "v = c # rest" "is_lower c"
      and k: "k \<le> length (takeWhile mid_char rest)"
      and d: "drop k rest = e # tail" "end_char e" and t: "tail = [] \<or> tail = [newline]" by blast
  have s1: "(1, rest, Map.empty) \<in> set (step is_lower (0, v, Map.empty))" using v by simp
  have s2: "(1 + k, drop k rest, Map.empty) \<in> set (run (Star (Cls mid_char)) (1, rest, Map.empty))"
    unfolding run_Star_Cls using k by blast
  have s3: "(Suc (1 + k), tail, Map.empty) \<in> set (step end_char (1 + k, drop k rest, Map.empty))"
    using d by simp
  have e: "at_end (Suc (1 + k), tail, Map.empty)" using t by (auto simp: newline_def)
  have "(Suc (1 + k), tail, Map.empty) \<in> set (run name_pattern (0, v, Map.empty))"
    unfolding name_pattern_alt run_frame using s1 s2 s3 e by blast
  then show ?L by auto
qed

lemma name_match_shape: "(re_match name_pattern v \<noteq> None) = name_shape v"
proof -
  have "(re_match name_pattern v \<noteq> None) = (run name_pattern (0, v, Map.empty) \<noteq> [])"
    by (auto simp: re_match_def split: list.splits)
  also have "\<dots> = name_shape v"
  proof
    assume "run name_pattern (0, v, Map.empty) \<noteq> []"
    then obtain c rest k e tail where v: "v = c # rest" "is_lower c"
      and k: "k \<le> length (takeWhile mid_char rest)"
      and d: "drop k rest = e # tail" "end_char e" and t: "tail = [] \<or> tail = [newline]"
      unfolding name_run by blast
    have "take k rest = take k (takeWhile mid_char rest)"
      using k by (metis append_eq_conv_conj takeWhile_dropWhile_id take_append min.absorb2 take_all_iff
            append_take_drop_id le_refl diff_is_0_eq' take_0 append_Nil2 length_take)
    then have m: "list_all mid_char (take k rest)"
      by (metis list_all_iff set_takeWhileD in_set_takeD)
    have r: "rest = take k rest @ e # tail" using d(1) by (metis append_take_drop_id)
    from t show "name_shape v"
    proof
      assume "tail = []"
      with r v have "v = c # take k rest @ [e]" by simp
      with v m d show ?thesis unfolding name_shape_def by blast
    next
      assume "tail = [newline]"
      with r v have "v = c # take k rest @ [e, newline]" by simp
      with v m d show ?thesis unfolding name_shape_def by blast
    qed
  next
    assume "name_shape v"
    then obtain c mid e tail where v: "v = c # mid @ e # tail" "tail = [] \<or> tail = [newline]"
        and ok: "is_lower c" "list_all mid_char mid" "end_char e"
      unfolding name_shape_def by auto
    have "length mid \<le> length (takeWhile mid_char (mid @ e # tail))"
      using ok(2) by (simp add: takeWhile_append2 list_all_iff)
    moreover have "drop (length mid) (mid @ e # tail) = e # tail" by simp
    ultimately show "run name_pattern (0, v, Map.empty) \<noteq> []"
      unfolding name_run using v ok by blast
  qed
  finally show ?thesis .
qed

subsection \<open>What the simulator does for names\<close>

lemma name_is_name: "py_in ''name'' (py_lower ''name'') \<and> \<not> py_in ''region'' (py_lower ''name'') \<and>
    \<not> py_in ''cidr'' (py_lower ''name'') \<and> \<not> py_in ''ami'' (py_lower ''name'')"
  by code_simp

lemma snake_accepts: "re_match snake_case_pattern ''invalid_name'' \<noteq> None"
  by code_simp

lemma sim_rejects: "simulate_validation ''name'' (PStr ''invalid_name'') string_var = False"
  by code_simp

lemma sim_accepts: "simulate_validation ''name'' (PStr ''valid-name'') string_var = True"
  by code_simp

lemma snake_rejects: "re_match snake_case_pattern ''valid-name'' = None"
  by code_simp

lemma name_cases: "(PStr ''invalid_name'', False, ''Underscores not allowed'')
    \<in> set (generate_test_cases ''name'' string_var)"
  by code_simp

text \<open>
  C6, as stated, fails. The claim says that for a variable named like a name the
  simulator matches the value against a snake-case pattern. For the variable \<open>name\<close>
  the simulator rejects \<open>invalid_name\<close>, which the snake-case pattern of this repository
  (\<open>^[a-z][a-z0-9_]*$\<close>, from \<open>validate_naming_conventions\<close>) accepts, and it accepts
  \<open>valid-name\<close>, which that pattern rejects. The test cases generated for the variable
  expect \<open>invalid_name\<close> to be invalid, with the label "Underscores not allowed".
\<close>

theorem name_rule_not_snake_case:
  "py_in ''name'' (py_lower ''name'') \<and> \<not> py_in ''region'' (py_lower ''name'') \<and>
   \<not> py_in ''cidr'' (py_lower ''name'') \<and> \<not> py_in ''ami'' (py_lower ''name'') \<and>
   simulate_validation ''name'' (PStr ''invalid_name'') string_var
     \<noteq> (re_match snake_case_pattern ''invalid_name'' \<noteq> None) \<and>
   simulate_validation ''name'' (PStr ''valid-name'') string_var
     \<noteq> (re_match snake_case_pattern ''valid-name'' \<noteq> None) \<and>
   (PStr ''invalid_name'', False, ''Underscores not allowed'')
     \<in> set (generate_test_cases ''name'' string_var)"
  using name_is_name snake_accepts sim_rejects sim_accepts snake_rejects name_cases by simp

lemma name_shape_no_underscore: "name_shape v \<Longrightarrow> CHR ''_'' \<notin> set v"
proof -
  assume "name_shape v"
  then obtain c mid e tail where v: "v = c # mid @ e # tail" "tail = [] \<or> tail = [newline]"
      and ok: "is_lower c" "list_all mid_char mid" "end_char e"
    unfolding name_shape_def by auto
  have a: "\<not> is_lower (CHR ''_'')" "\<not> mid_char (CHR ''_'')" "\<not> end_char (CHR ''_'')"
    by (simp_all add: is_lower_def mid_char_def end_char_def is_digit_def)
  have "CHR ''_'' \<notin> set mid" using ok(2) a(2) by (auto simp: list_all_iff)
  moreover have "c \<noteq> CHR ''_''" "e \<noteq> CHR ''_''" using ok a by auto
  moreover have "CHR ''_'' \<notin> set tail" using v(2) by (auto simp: newline_def)
  ultimately show ?thesis using v(1) by auto
qed

text \<open>
  C6, amended. For a variable whose lower-cased name contains \<open>name\<close> or \<open>prefix\<close> and
  none of \<open>region\<close>, \<open>cidr\<close>, \<open>ami\<close>, the simulator judges a string value valid exactly
  when the declared type mentions neither \<open>bool\<close> nor \<open>list\<close> and the value matches
  \<open>^[a-z][a-z0-9-]*[a-z0-9]$\<close>: a lowercase letter, then lowercase letters, digits or
  hyphens, ending in a letter or digit. A value with an underscore never matches.
\<close>

theorem name_rule_is_hyphen_pattern:
  assumes "py_in ''name'' (py_lower var_name) \<or> py_in ''prefix'' (py_lower var_name)"
    and "\<not> py_in ''region'' (py_lower var_name)" and "\<not> py_in ''cidr'' (py_lower var_name)"
    and "\<not> py_in ''ami'' (py_lower var_name)"
  shows "simulate_validation var_name (PStr v) validation_info =
           (\<not> py_in ''bool'' (str_of_type (var_type validation_info)) \<and>
            \<not> py_in ''list'' (str_of_type (var_type validation_info)) \<and>
            re_match name_pattern v \<noteq> None) \<and>
         (re_match name_pattern v \<noteq> None) = name_shape v \<and>
         (name_shape v \<longrightarrow> CHR ''_'' \<notin> set v)"
proof -
  have "simulate_validation var_name (PStr v) validation_info =
           (\<not> py_in ''bool'' (str_of_type (var_type validation_info)) \<and>
            \<not> py_in ''list'' (str_of_type (var_type validation_info)) \<and>
            re_match name_pattern v \<noteq> None)"
    using assms by (simp add: simulate_validation_def Let_def)
  with name_match_shape [of v] name_shape_no_underscore [of v] show ?thesis by blast
qed

lemma prefix_is_name: "py_in ''prefix'' (py_lower ''Name_Prefix'') \<and>
    \<not> py_in ''region'' (py_lower ''Name_Prefix'') \<and>
    \<not> py_in ''cidr'' (py_lower ''Name_Prefix'') \<and> \<not> py_in ''ami'' (py_lower ''Name_Prefix'')"
  by code_simp

lemma string_var_type: "\<not> py_in ''bool'' (str_of_type (var_type string_var)) \<and>
    \<not> py_in ''list'' (str_of_type (var_type string_var))"
  by code_simp

lemma name_matches: "re_match name_pattern ''valid-name'' \<noteq> None \<and> re_match name_pattern ''invalid_name'' = None"
  by code_simp

theorem name_rule_is_hyphen_pattern_witness:
  "py_in ''prefix'' (py_lower ''Name_Prefix'') \<and> \<not> py_in ''region'' (py_lower ''Name_Prefix'') \<and>
   \<not> py_in ''cidr'' (py_lower ''Name_Prefix'') \<and> \<not> py_in ''ami'' (py_lower ''Name_Prefix'') \<and>
   simulate_validation ''Name_Prefix'' (PStr ''valid-name'') string_var = True \<and>
   simulate_validation ''Name_Prefix'' (PStr ''invalid_name'') string_var = False \<and>
   name_shape ''valid-name'' \<and> \<not> name_shape ''invalid_name''"
proof -
  have p: "py_in ''name'' (py_lower ''Name_Prefix'') \<or> py_in ''prefix'' (py_lower ''Name_Prefix'')"
    using prefix_is_name by blast
  note t = name_rule_is_hyphen_pattern [OF p, of _ string_var]
  have a: "simulate_validation ''Name_Prefix'' (PStr ''valid-name'') string_var = True
      \<and> name_shape ''valid-name''"
    using t [of "''valid-name''"] prefix_is_name string_var_type name_matches by simp
  have b: "simulate_validation ''Name_Prefix'' (PStr ''invalid_name'') string_var = False
      \<and> \<not> name_shape ''invalid_name''"
    using t [of "''invalid_name''"] prefix_is_name string_var_type name_matches by simp
  from a b prefix_is_name show ?thesis by blast
qed

end
